theory Spec2Isabelle
  imports
    Complex_Main
    "HOL-Library.AList"
    "HOL-Library.Char_ord"
    "HOL-Library.List_Lexorder"
    "HOL-Library.Multiset"
    "HOL-Library.Sublist"
begin

section \<open>The ELO rating calculator of scripts/calculate_elo.py\<close>

text \<open>
  The development embeds the rating update of \<^verbatim>\<open>scripts/calculate_elo.py\<close>: the rating
  formulas, the per-game accumulator \<^verbatim>\<open>process_game\<close>, the driver loop of \<^verbatim>\<open>main\<close> and the
  leaderboard projection.

  Conventions of the embedding.
  \<^item> A rating is a \<^typ>\<open>real\<close> and the arithmetic of the rating update is exact: the
    rounding error of IEEE doubles and the overflow of \<^verbatim>\<open>10 ** x\<close> are outside the model.
    There \<^verbatim>\<open>round(x, 1)\<close> is rounding to the nearest tenth with ties to the even tenth.
  \<^item> The win rate of the leaderboard is computed on binary64 doubles as the code computes
    it: each operation rounds its exact result to the nearest double, ties to the even
    significand, and a conversion of an integer that is too large raises
    \<^verbatim>\<open>OverflowError\<close>.
  \<^item> A Python \<^verbatim>\<open>dict\<close> is an association list with distinct keys, in insertion order:
    \<^const>\<open>map_of\<close> reads a key, \<^const>\<open>AList.update\<close> overwrites a key in place or appends a new
    one at the end, as assignment to a \<^verbatim>\<open>dict\<close> entry does.
  \<^item> A field read with \<^verbatim>\<open>d.get(key, default)\<close> is an \<^typ>\<open>'a option\<close> with the default written
    out at the read.
  \<^item> Mutation is state passing: every function returns the objects it mutates.
  \<^item> The agent entries of the state are the ten-field dictionaries that
    \<^verbatim>\<open>init_agent_state\<close> creates; the counters are natural numbers (they start at 0 and are
    only ever incremented).
\<close>

subsection \<open>Constants and dictionaries\<close>

type_synonym 'v dict = "(string \<times> 'v) list"

definition K_FACTOR :: real where
  "K_FACTOR = 32"

definition INITIAL_ELO :: real where
  "INITIAL_ELO = 1000"

text \<open>\<^verbatim>\<open>len(d)\<close>: the number of keys.\<close>

definition dict_len :: "'v dict \<Rightarrow> nat" where
  "dict_len d = length (remdups (map fst d))"

text \<open>\<^verbatim>\<open>d.get(k, "")\<close> on a dictionary of strings.\<close>

definition get_str :: "string dict \<Rightarrow> string \<Rightarrow> string" where
  "get_str d k = (case map_of d k of None \<Rightarrow> [] | Some v \<Rightarrow> v)"

subsection \<open>Rounding to one decimal\<close>

text \<open>
  \<^verbatim>\<open>round(x, 1)\<close>: the closest multiple of one tenth, and the even one when two are equally
  close.
\<close>

definition py_round1 :: "real \<Rightarrow> real" where
  "py_round1 x =
     (let y = x * 10;
          f = \<lfloor>y\<rfloor>;
          d = y - of_int f
      in of_int (if d < 1 / 2 then f
                 else if 1 / 2 < d then f + 1
                 else if even f then f else f + 1) / 10)"

subsection \<open>The cumulative state\<close>

record agent_state =
  general_elo :: real
  werewolf_elo :: real
  villager_elo :: real
  games_played :: nat
  wins :: nat
  losses :: nat
  games_as_werewolf :: nat
  games_as_villager :: nat
  wins_as_werewolf :: nat
  wins_as_villager :: nat

text \<open>
  The state of \<^verbatim>\<open>elo_state.json\<close>. The field \<^verbatim>\<open>last_updated\<close> is written by
  \<^verbatim>\<open>save_elo_state\<close> only and read nowhere.
\<close>

record elo_state =
  agents :: "agent_state dict"
  processed_games :: "string list"

datatype elo_type = General | Werewolf | Villager

fun elo_field :: "elo_type \<Rightarrow> agent_state \<Rightarrow> real" where
  "elo_field General a = general_elo a"
| "elo_field Werewolf a = werewolf_elo a"
| "elo_field Villager a = villager_elo a"

definition get_agent_elo :: "elo_state \<Rightarrow> string \<Rightarrow> elo_type \<Rightarrow> real" where
  "get_agent_elo state agent_id elo_type =
     (case map_of (agents state) agent_id of
        Some a \<Rightarrow> elo_field elo_type a
      | None \<Rightarrow> INITIAL_ELO)"

subsection \<open>The rating model\<close>

definition calculate_expected_score :: "real \<Rightarrow> real \<Rightarrow> real" where
  "calculate_expected_score player_elo opponent_elo =
     1 / (1 + 10 powr ((opponent_elo - player_elo) / 400))"

definition calculate_elo_delta :: "real \<Rightarrow> real \<Rightarrow> bool \<Rightarrow> real" where
  "calculate_elo_delta player_elo opponents_avg_elo won =
     (let expected = calculate_expected_score player_elo opponents_avg_elo;
          actual = (if won then 1 else 0)
      in py_round1 (K_FACTOR * (actual - expected)))"

subsection \<open>Game records\<close>

text \<open>
  One entry of a \<^verbatim>\<open>scores\<close> list. \<^verbatim>\<open>player_name\<close> is read by subscript and so must be
  present; the other fields are read with \<^verbatim>\<open>get\<close>. \<^verbatim>\<open>sc_aggregate_score\<close> is
  \<^verbatim>\<open>metrics.aggregate_score\<close>.
\<close>

record score =
  sc_player_name :: string
  sc_team :: "string option"
  sc_won :: "bool option"
  sc_role :: "string option"
  sc_aggregate_score :: "real option"
  sc_elo_delta :: "real option"
  sc_elo_after :: "real option"

text \<open>
  One block of \<^verbatim>\<open>results\<close>: \<^verbatim>\<open>rb_scores\<close> is \<^const>\<open>None\<close> when the block has no key
  \<^verbatim>\<open>scores\<close>; \<^verbatim>\<open>rb_action_log\<close> holds the \<^verbatim>\<open>timestamp\<close> of each action.
\<close>

record result_block =
  rb_scores :: "score list option"
  rb_winner :: "string option"
  rb_action_log :: "string option list"

record game_data =
  participants :: "string dict"
  results :: "result_block list"

definition score_team :: "score \<Rightarrow> string" where
  "score_team s = (case sc_team s of None \<Rightarrow> [] | Some t \<Rightarrow> t)"

definition score_won :: "score \<Rightarrow> bool" where
  "score_won s = (case sc_won s of None \<Rightarrow> False | Some w \<Rightarrow> w)"

definition score_role :: "score \<Rightarrow> string" where
  "score_role s = (case sc_role s of None \<Rightarrow> [] | Some r \<Rightarrow> r)"

definition get_participants_from_game :: "game_data \<Rightarrow> string dict" where
  "get_participants_from_game gd = participants gd"

subsection \<open>Opponent averaging\<close>

text \<open>The loop of \<^verbatim>\<open>get_opponents_avg_elo\<close>, with the list \<^verbatim>\<open>opponent_elos\<close> as accumulator.\<close>

fun opponent_elos_loop ::
  "elo_state \<Rightarrow> string dict \<Rightarrow> string \<Rightarrow> string \<Rightarrow> elo_type \<Rightarrow> real list \<Rightarrow> score list \<Rightarrow> real list"
where
  "opponent_elos_loop state parts player_name player_team elo_type acc [] = acc"
| "opponent_elos_loop state parts player_name player_team elo_type acc (s # rest) =
     (let other_player = sc_player_name s in
      if other_player = player_name
      then opponent_elos_loop state parts player_name player_team elo_type acc rest
      else
        let other_team = score_team s in
        if other_team \<noteq> player_team
        then
          (let other_agent_id = get_str parts other_player in
           if other_agent_id \<noteq> []
           then opponent_elos_loop state parts player_name player_team elo_type
                  (acc @ [get_agent_elo state other_agent_id elo_type]) rest
           else opponent_elos_loop state parts player_name player_team elo_type acc rest)
        else opponent_elos_loop state parts player_name player_team elo_type acc rest)"

definition get_opponents_avg_elo ::
  "elo_state \<Rightarrow> string dict \<Rightarrow> string \<Rightarrow> string \<Rightarrow> score list \<Rightarrow> elo_type \<Rightarrow> real"
where
  "get_opponents_avg_elo state parts player_name player_team scores elo_type =
     (let opponent_elos =
            opponent_elos_loop state parts player_name player_team elo_type [] scores
      in if opponent_elos = [] then INITIAL_ELO
         else sum_list opponent_elos / real (length opponent_elos))"

subsection \<open>Timestamps\<close>

text \<open>
  \<^verbatim>\<open>get_game_timestamps\<close>: the least and the greatest non-empty timestamp of all action
  logs, in the order of strings.
\<close>

fun timestamps_step ::
  "string option \<times> string option \<Rightarrow> string option \<Rightarrow> string option \<times> string option"
where
  "timestamps_step (start_ts, end_ts) None = (start_ts, end_ts)"
| "timestamps_step (start_ts, end_ts) (Some ts) =
     (if ts = [] then (start_ts, end_ts)
      else
        ((case start_ts of None \<Rightarrow> Some ts
          | Some s \<Rightarrow> if ts < s then Some ts else Some s),
         (case end_ts of None \<Rightarrow> Some ts
          | Some e \<Rightarrow> if e < ts then Some ts else Some e)))"

definition get_game_timestamps :: "game_data \<Rightarrow> string option \<times> string option" where
  "get_game_timestamps gd =
     foldl (\<lambda>acc result. foldl timestamps_step acc (rb_action_log result))
       (None, None) (results gd)"

subsection \<open>Applying one game\<close>

definition default_agent :: agent_state where
  "default_agent =
     \<lparr>general_elo = INITIAL_ELO, werewolf_elo = INITIAL_ELO, villager_elo = INITIAL_ELO,
      games_played = 0, wins = 0, losses = 0,
      games_as_werewolf = 0, games_as_villager = 0,
      wins_as_werewolf = 0, wins_as_villager = 0\<rparr>"

definition init_agent_state :: "elo_state \<Rightarrow> string \<Rightarrow> elo_state" where
  "init_agent_state state agent_id =
     (if map_of (agents state) agent_id = None
      then state\<lparr>agents := AList.update agent_id default_agent (agents state)\<rparr>
      else state)"

text \<open>One entry of an agent's history (\<^verbatim>\<open>agent_histories[agent_id]\<close>).\<close>

record history_entry =
  he_game :: string
  he_player_name :: string
  he_role :: string
  he_team :: string
  he_won :: bool
  he_elo_before :: real
  he_elo_delta :: real
  he_elo_after :: real
  he_aggregate_score :: real
  he_start_time :: "string option"
  he_end_time :: "string option"

text \<open>
  The statements of \<^verbatim>\<open>process_game\<close> that update \<^verbatim>\<open>state["agents"][agent_id]\<close> (general
  rating, counters, then the branch on the team label), on the agent's entry.
\<close>

definition update_agent :: "agent_state \<Rightarrow> real \<Rightarrow> real \<Rightarrow> bool \<Rightarrow> string \<Rightarrow> agent_state" where
  "update_agent a elo_after opponents_avg won team =
     (let a1 = a\<lparr>general_elo := elo_after, games_played := games_played a + 1\<rparr>;
          a2 = (if won then a1\<lparr>wins := wins a1 + 1\<rparr> else a1\<lparr>losses := losses a1 + 1\<rparr>)
      in if team = ''werewolves''
         then
           (let a3 = a2\<lparr>games_as_werewolf := games_as_werewolf a2 + 1\<rparr>;
                a4 = (if won then a3\<lparr>wins_as_werewolf := wins_as_werewolf a3 + 1\<rparr> else a3);
                wolf_elo_before = werewolf_elo a4;
                wolf_delta = calculate_elo_delta wolf_elo_before opponents_avg won
            in a4\<lparr>werewolf_elo := py_round1 (wolf_elo_before + wolf_delta)\<rparr>)
         else
           (let a3 = a2\<lparr>games_as_villager := games_as_villager a2 + 1\<rparr>;
                a4 = (if won then a3\<lparr>wins_as_villager := wins_as_villager a3 + 1\<rparr> else a3);
                villager_elo_before = villager_elo a4;
                villager_delta = calculate_elo_delta villager_elo_before opponents_avg won
            in a4\<lparr>villager_elo := py_round1 (villager_elo_before + villager_delta)\<rparr>))"

text \<open>
  What the loop over \<^verbatim>\<open>scores\<close> carries: the state, the histories, the entries visited so
  far as the loop has rewritten them, and the flag \<^verbatim>\<open>modified\<close>.
\<close>

record loop_acc =
  la_state :: elo_state
  la_histories :: "history_entry list dict"
  la_scores :: "score list"
  la_modified :: bool

text \<open>The agent's entry, which exists once \<^const>\<open>init_agent_state\<close> has run.\<close>

definition agent_entry :: "elo_state \<Rightarrow> string \<Rightarrow> agent_state" where
  "agent_entry state agent_id =
     (case map_of (agents state) agent_id of Some a \<Rightarrow> a | None \<Rightarrow> default_agent)"

text \<open>
  The body of the loop \<^verbatim>\<open>for score in scores\<close>. The list \<^verbatim>\<open>scores\<close> that
  \<^verbatim>\<open>get_opponents_avg_elo\<close> receives is the list being iterated; the loop rewrites only the
  fields \<^verbatim>\<open>elo_delta\<close> and \<^verbatim>\<open>elo_after\<close> of its entries, which the averaging does not read,
  so the model passes the list as it was read.
\<close>

definition process_score ::
  "string \<Rightarrow> string option \<times> string option \<Rightarrow> string dict \<Rightarrow> score list \<Rightarrow>
   loop_acc \<Rightarrow> score \<Rightarrow> loop_acc"
where
  "process_score filename ts parts scores acc s =
     (let player_name = sc_player_name s;
          agent_id = get_str parts player_name;
          won = score_won s;
          team = score_team s;
          role = score_role s
      in if agent_id = [] then acc\<lparr>la_scores := la_scores acc @ [s]\<rparr>
         else
           let state1 = init_agent_state (la_state acc) agent_id;
               elo_before = get_agent_elo state1 agent_id General;
               opponents_avg = get_opponents_avg_elo state1 parts player_name team scores General;
               elo_delta = calculate_elo_delta elo_before opponents_avg won;
               elo_after = py_round1 (elo_before + elo_delta);
               changed = (sc_elo_delta s \<noteq> Some elo_delta \<or> sc_elo_after s \<noteq> Some elo_after);
               s' = (if changed
                     then s\<lparr>sc_elo_delta := Some elo_delta, sc_elo_after := Some elo_after\<rparr>
                     else s);
               state2 = state1\<lparr>agents :=
                          AList.update agent_id
                            (update_agent (agent_entry state1 agent_id) elo_after opponents_avg won team)
                            (agents state1)\<rparr>;
               entry = \<lparr>he_game = filename, he_player_name = player_name, he_role = role,
                        he_team = team, he_won = won, he_elo_before = elo_before,
                        he_elo_delta = elo_delta, he_elo_after = elo_after,
                        he_aggregate_score =
                          py_round1 ((case sc_aggregate_score s of None \<Rightarrow> 0 | Some v \<Rightarrow> v) * 100),
                        he_start_time = fst ts, he_end_time = snd ts\<rparr>;
               old_history = (case map_of (la_histories acc) agent_id of
                                None \<Rightarrow> [] | Some h \<Rightarrow> h)
           in \<lparr>la_state = state2,
               la_histories = AList.update agent_id (old_history @ [entry]) (la_histories acc),
               la_scores = la_scores acc @ [s'],
               la_modified = (la_modified acc \<or> changed)\<rparr>)"

fun score_loop ::
  "string \<Rightarrow> string option \<times> string option \<Rightarrow> string dict \<Rightarrow> score list \<Rightarrow>
   loop_acc \<Rightarrow> score list \<Rightarrow> loop_acc"
where
  "score_loop filename ts parts scores acc [] = acc"
| "score_loop filename ts parts scores acc (s # rest) =
     score_loop filename ts parts scores (process_score filename ts parts scores acc s) rest"

text \<open>
  The search for the scores: the first block of \<^verbatim>\<open>results\<close> that has the key
  \<^verbatim>\<open>scores\<close>, and nothing after it.
\<close>

fun find_scores :: "result_block list \<Rightarrow> score list option" where
  "find_scores [] = None"
| "find_scores (r # rest) =
     (case rb_scores r of Some scores \<Rightarrow> Some scores | None \<Rightarrow> find_scores rest)"

text \<open>The rewritten entries are entries of that block: the game data as it is saved.\<close>

fun store_scores :: "score list \<Rightarrow> result_block list \<Rightarrow> result_block list" where
  "store_scores new_scores [] = []"
| "store_scores new_scores (r # rest) =
     (case rb_scores r of
        Some scores \<Rightarrow> r\<lparr>rb_scores := Some new_scores\<rparr> # rest
      | None \<Rightarrow> r # store_scores new_scores rest)"

text \<open>
  \<^verbatim>\<open>process_game\<close> on the file \<^verbatim>\<open>filename\<close> whose content is \<^verbatim>\<open>gd\<close>. It returns the state, the
  histories, the content of the file after the call (rewritten only when \<^verbatim>\<open>modified\<close>) and
  the returned flag.
\<close>

definition process_game ::
  "elo_state \<Rightarrow> string \<Rightarrow> game_data \<Rightarrow> history_entry list dict \<Rightarrow>
   elo_state \<times> history_entry list dict \<times> game_data \<times> bool"
where
  "process_game state filename gd agent_histories =
     (if filename \<in> set (processed_games state) then (state, agent_histories, gd, False)
      else
        let parts = get_participants_from_game gd in
        if dict_len parts \<noteq> 8 then (state, agent_histories, gd, False)
        else
          case find_scores (results gd) of
            None \<Rightarrow> (state, agent_histories, gd, False)
          | Some scores \<Rightarrow>
              if scores = [] then (state, agent_histories, gd, False)
              else
                let ts = get_game_timestamps gd;
                    acc = score_loop filename ts parts scores
                            \<lparr>la_state = state, la_histories = agent_histories,
                             la_scores = [], la_modified = False\<rparr> scores;
                    gd' = (if la_modified acc
                           then gd\<lparr>results := store_scores (la_scores acc) (results gd)\<rparr>
                           else gd);
                    state' = (la_state acc)\<lparr>processed_games :=
                                processed_games (la_state acc) @ [filename]\<rparr>
                in (state', la_histories acc, gd', la_modified acc))"

subsection \<open>The driver loop\<close>

text \<open>
  The loop of \<^verbatim>\<open>main\<close> over the result files, each a name with its content: the state, the
  histories, the files that \<^verbatim>\<open>process_game\<close> has rewritten, and the two counters of the
  summary.
\<close>

record main_acc =
  ma_state :: elo_state
  ma_histories :: "history_entry list dict"
  ma_files :: "game_data dict"
  ma_files_modified :: nat
  ma_games_processed :: nat

text \<open>The body of the loop \<^verbatim>\<open>for game_file in result_files\<close>.\<close>

definition main_step :: "main_acc \<Rightarrow> string \<times> game_data \<Rightarrow> main_acc" where
  "main_step acc game_file =
     (let name = fst game_file; gd = snd game_file in
      if name \<in> set (processed_games (ma_state acc)) then acc
      else
        case process_game (ma_state acc) name gd (ma_histories acc) of
          (state', histories', gd', modified) \<Rightarrow>
            \<lparr>ma_state = state', ma_histories = histories',
             ma_files =
               (if modified then AList.update name gd' (ma_files acc) else ma_files acc),
             ma_files_modified =
               (if modified then ma_files_modified acc + 1 else ma_files_modified acc),
             ma_games_processed = ma_games_processed acc + 1\<rparr>)"

fun main_loop :: "main_acc \<Rightarrow> (string \<times> game_data) list \<Rightarrow> main_acc" where
  "main_loop acc [] = acc"
| "main_loop acc (game_file # rest) = main_loop (main_step acc game_file) rest"

subsection \<open>Doubles\<close>

text \<open>
  The win rate is the one computation of the leaderboard on floating-point numbers, and it
  is modelled on binary64 doubles. A finite double is the real number it denotes.
\<close>

datatype error = OverflowError

datatype py_float = Finite real | Infinity

text \<open>Rounding to the nearest integer, ties to the even one.\<close>

definition round_half_even :: "real \<Rightarrow> int" where
  "round_half_even y =
     (let f = \<lfloor>y\<rfloor>; d = y - of_int f
      in if d < 1 / 2 then f else if 1 / 2 < d then f + 1 else if even f then f else f + 1)"

text \<open>
  The double nearest to \<open>x\<close>, ties to the even significand, before the test for overflow:
  a significand of 53 bits, and a least exponent of -1022, below which the spacing of the
  doubles stays \<open>2\<^sup>-\<^sup>1\<^sup>0\<^sup>7\<^sup>4\<close>.
\<close>

definition nearest_double :: "real \<Rightarrow> real" where
  "nearest_double x =
     (if x = 0 then 0
      else let e = max \<lfloor>log 2 \<bar>x\<bar>\<rfloor> (- 1022);
               u = 2 powr (of_int e - 52)
           in of_int (round_half_even (x / u)) * u)"

text \<open>
  The conversion of a non-negative \<^verbatim>\<open>int\<close> to \<^verbatim>\<open>float\<close>, which raises \<^verbatim>\<open>OverflowError\<close>
  when the nearest double would be \<open>2\<^sup>1\<^sup>0\<^sup>2\<^sup>4\<close> or more.
\<close>

definition float_of_nat :: "nat \<Rightarrow> error + real" where
  "float_of_nat n =
     (let x = nearest_double (real n) in if 2 ^ 1024 \<le> x then Inl OverflowError else Inr x)"

text \<open>
  The product and the quotient of non-negative doubles (the divisor positive and finite):
  the exact result rounded to the nearest double, infinite on overflow.
\<close>

definition float_mul :: "real \<Rightarrow> real \<Rightarrow> py_float" where
  "float_mul x y =
     (let p = nearest_double (x * y) in if 2 ^ 1024 \<le> p then Infinity else Finite p)"

fun float_div :: "py_float \<Rightarrow> real \<Rightarrow> py_float" where
  "float_div Infinity y = Infinity"
| "float_div (Finite x) y =
     (let q = nearest_double (x / y) in if 2 ^ 1024 \<le> q then Infinity else Finite q)"

text \<open>
  \<^verbatim>\<open>round(x, 1)\<close> on a double: an infinity is returned as it is; a finite double is rounded,
  in its exact value, to the nearest tenth with ties to the even tenth, and the result is
  the double nearest to that decimal.
\<close>

fun float_round1 :: "py_float \<Rightarrow> py_float" where
  "float_round1 Infinity = Infinity"
| "float_round1 (Finite x) = Finite (nearest_double (py_round1 x))"

text \<open>The expression \<^verbatim>\<open>round(wins * 100.0 / games_played, 1)\<close>.\<close>

definition win_rate_of :: "nat \<Rightarrow> nat \<Rightarrow> error + py_float" where
  "win_rate_of n_wins n_games =
     (case float_of_nat n_wins of
        Inl e \<Rightarrow> Inl e
      | Inr w \<Rightarrow>
          (let product = float_mul w 100 in
           case float_of_nat n_games of
             Inl e \<Rightarrow> Inl e
           | Inr g \<Rightarrow> Inr (float_round1 (float_div product g))))"

subsection \<open>The leaderboard\<close>

record ranking =
  rk_agent_id :: string
  rk_general_elo :: real
  rk_werewolf_elo :: real
  rk_villager_elo :: real
  rk_games_played :: nat
  rk_wins :: nat
  rk_losses :: nat
  rk_win_rate :: py_float
  rk_games_as_werewolf :: nat
  rk_games_as_villager :: nat
  rk_wins_as_werewolf :: nat
  rk_wins_as_villager :: nat

text \<open>
  The entry that the loop appends for one agent: the win rate is computed first, and an
  exception in it leaves the function.
\<close>

definition ranking_of :: "string \<Rightarrow> agent_state \<Rightarrow> error + ranking" where
  "ranking_of agent_id data =
     (let n_games = games_played data;
          n_wins = wins data
      in case (if 0 < n_games then win_rate_of n_wins n_games else Inr (Finite 0)) of
           Inl e \<Rightarrow> Inl e
         | Inr win_rate \<Rightarrow>
             Inr \<lparr>rk_agent_id = agent_id, rk_general_elo = general_elo data,
                  rk_werewolf_elo = werewolf_elo data, rk_villager_elo = villager_elo data,
                  rk_games_played = n_games, rk_wins = n_wins, rk_losses = losses data,
                  rk_win_rate = win_rate,
                  rk_games_as_werewolf = games_as_werewolf data,
                  rk_games_as_villager = games_as_villager data,
                  rk_wins_as_werewolf = wins_as_werewolf data,
                  rk_wins_as_villager = wins_as_villager data\<rparr>)"

text \<open>The loop over \<^verbatim>\<open>state["agents"].items()\<close>, in the order of the dictionary.\<close>

fun rankings_loop :: "ranking list \<Rightarrow> agent_state dict \<Rightarrow> error + ranking list" where
  "rankings_loop rankings [] = Inr rankings"
| "rankings_loop rankings ((agent_id, data) # rest) =
     (if games_played data = 0 then rankings_loop rankings rest
      else case ranking_of agent_id data of
             Inl e \<Rightarrow> Inl e
           | Inr r \<Rightarrow> rankings_loop (rankings @ [r]) rest)"

text \<open>
  \<^verbatim>\<open>rankings.sort(key=..., reverse=True)\<close> is a stable sort by descending key: entries with
  equal keys keep their order. \<^const>\<open>sort_key\<close> is a stable sort by ascending key, here on the
  negated rating. The rank is paired with each entry.
\<close>

record leaderboard =
  lb_total_agents :: nat
  lb_rankings :: "(nat \<times> ranking) list"

definition generate_leaderboard_index :: "elo_state \<Rightarrow> error + leaderboard" where
  "generate_leaderboard_index state =
     (case rankings_loop [] (agents state) of
        Inl e \<Rightarrow> Inl e
      | Inr rankings \<Rightarrow>
          (let ordered = sort_key (\<lambda>x. - rk_general_elo x) rankings;
               ranked = map (\<lambda>(i, r). (i + 1, r)) (List.enumerate 0 ordered)
           in Inr \<lparr>lb_total_agents = length ordered, lb_rankings = ranked\<rparr>))"

subsection \<open>Predicates of the statements\<close>

text \<open>
  The two validations of \<^verbatim>\<open>process_game\<close>: eight participants, and a first block with
  scores whose list is not empty.
\<close>

definition game_valid :: "game_data \<Rightarrow> bool" where
  "game_valid gd \<longleftrightarrow>
     dict_len (get_participants_from_game gd) = 8 \<and>
     (case find_scores (results gd) of None \<Rightarrow> False | Some scores \<Rightarrow> scores \<noteq> [])"

text \<open>The invariant of the counters of one agent.\<close>

definition counters_ok :: "agent_state \<Rightarrow> bool" where
  "counters_ok a \<longleftrightarrow>
     games_played a = wins a + losses a \<and>
     games_played a = games_as_werewolf a + games_as_villager a"

text \<open>
  The opponents' average as the specification words it: the mean, over all other entries of
  the scores list whose team label differs, of the general rating of the entry's player,
  1000 for an agent that the state does not hold; 1000 when there is no such entry.
\<close>

definition spec_opponents_avg ::
  "elo_state \<Rightarrow> string dict \<Rightarrow> string \<Rightarrow> string \<Rightarrow> score list \<Rightarrow> real"
where
  "spec_opponents_avg state parts player_name player_team scores =
     (let opponents = filter (\<lambda>s. sc_player_name s \<noteq> player_name \<and> score_team s \<noteq> player_team) scores;
          ratings = map (\<lambda>s. get_agent_elo state (get_str parts (sc_player_name s)) General) opponents
      in if opponents = [] then 1000 else sum_list ratings / real (length ratings))"

text \<open>
  The entries that the averaging of the code counts: the other entries with a different
  team label whose slot is mapped to a non-empty agent identifier.
\<close>

definition mapped_opponents :: "string dict \<Rightarrow> string \<Rightarrow> string \<Rightarrow> score list \<Rightarrow> score list" where
  "mapped_opponents parts player_name player_team scores =
     filter (\<lambda>s. sc_player_name s \<noteq> player_name \<and> score_team s \<noteq> player_team \<and>
                 get_str parts (sc_player_name s) \<noteq> []) scores"

subsection \<open>A game of eight players\<close>

text \<open>
  Two werewolves and six villagers, the villagers winning, every slot mapped to an agent of
  its own; \<open>game_wolf_first\<close> and \<open>game_villager_first\<close> differ in the order of the first two
  entries of the scores list only.
\<close>

definition mk_score :: "string \<Rightarrow> string \<Rightarrow> bool \<Rightarrow> score" where
  "mk_score name team_label w =
     \<lparr>sc_player_name = name, sc_team = Some team_label, sc_won = Some w,
      sc_role = Some team_label, sc_aggregate_score = None,
      sc_elo_delta = None, sc_elo_after = None\<rparr>"

definition eight_participants :: "string dict" where
  "eight_participants =
     [(''Player_1'', ''w1''), (''Player_2'', ''v1''), (''Player_3'', ''v2''),
      (''Player_4'', ''v3''), (''Player_5'', ''v4''), (''Player_6'', ''v5''),
      (''Player_7'', ''v6''), (''Player_8'', ''w2'')]"

definition other_six :: "score list" where
  "other_six =
     [mk_score ''Player_3'' ''villagers'' True, mk_score ''Player_4'' ''villagers'' True,
      mk_score ''Player_5'' ''villagers'' True, mk_score ''Player_6'' ''villagers'' True,
      mk_score ''Player_7'' ''villagers'' True, mk_score ''Player_8'' ''werewolves'' False]"

definition game_of :: "score list \<Rightarrow> game_data" where
  "game_of scores =
     \<lparr>participants = eight_participants,
      results = [\<lparr>rb_scores = Some scores, rb_winner = Some ''villagers'', rb_action_log = []\<rparr>]\<rparr>"

definition game_wolf_first :: game_data where
  "game_wolf_first =
     game_of (mk_score ''Player_1'' ''werewolves'' False # mk_score ''Player_2'' ''villagers'' True
              # other_six)"

definition game_villager_first :: game_data where
  "game_villager_first =
     game_of (mk_score ''Player_2'' ''villagers'' True # mk_score ''Player_1'' ''werewolves'' False
              # other_six)"

definition empty_state :: elo_state where
  "empty_state = \<lparr>agents = [], processed_games = []\<rparr>"

text \<open>
  A state of four agents: one has not played, two have the same rating, and one has won 3
  of 2000 games.
\<close>

definition board_state :: elo_state where
  "board_state =
     \<lparr>agents =
        [(''a'', default_agent),
         (''b'', default_agent\<lparr>general_elo := 1016, games_played := 3, wins := 1, losses := 2,
                   games_as_villager := 3, wins_as_villager := 1\<rparr>),
         (''c'', default_agent\<lparr>general_elo := 1016, games_played := 2000, wins := 3,
                   losses := 1997, games_as_villager := 2000, wins_as_villager := 3\<rparr>),
         (''d'', default_agent\<lparr>general_elo := 1030, games_played := 2, wins := 1, losses := 1,
                   games_as_werewolf := 2, wins_as_werewolf := 1\<rparr>)],
      processed_games = [''game_1.json'', ''game_2.json'', ''game_3.json'']\<rparr>"

section \<open>Properties\<close>

subsection \<open>Rounding\<close>

lemma py_round1_near:
  assumes "\<bar>x * 10 - of_int n\<bar> < 1 / 2"
  shows "py_round1 x = of_int n / 10"
proof -
  let ?y = "x * 10"
  from assms have lo: "of_int n - 1 / 2 < ?y" and hi: "?y < of_int n + 1 / 2" by linarith+
  show ?thesis
  proof (cases "of_int n \<le> ?y")
    case True
    have "\<lfloor>?y\<rfloor> = n" using True hi by (intro floor_unique) linarith+
    then show ?thesis using hi by (simp add: py_round1_def Let_def)
  next
    case False
    have f: "\<lfloor>?y\<rfloor> = n - 1" using False lo by (intro floor_unique) (simp, linarith)+
    have "\<not> ?y - of_int (n - 1) < 1 / 2" using lo by simp
    moreover have "1 / 2 < ?y - of_int (n - 1)" using lo by simp
    ultimately show ?thesis using f by (simp add: py_round1_def Let_def)
  qed
qed

lemma py_round1_int: "py_round1 (of_int n) = of_int n"
  using py_round1_near[of "of_int n" "n * 10"] by simp

subsection \<open>The rating model\<close>

lemma expected_equal: "calculate_expected_score a a = 1 / 2"
  by (simp add: calculate_expected_score_def)

lemma delta_equal_ratings:
  "calculate_elo_delta a a True = 16" "calculate_elo_delta a a False = - 16"
  using py_round1_int[of 16] py_round1_int[of "-16"]
  by (simp_all add: calculate_elo_delta_def expected_equal K_FACTOR_def)

subsection \<open>The processed games\<close>

lemma process_score_processed:
  "processed_games (la_state (process_score f ts parts scores acc s)) = processed_games (la_state acc)"
  by (simp add: process_score_def Let_def init_agent_state_def)

lemma score_loop_processed:
  "processed_games (la_state (score_loop f ts parts scores acc ss)) = processed_games (la_state acc)"
  by (induction ss arbitrary: acc) (simp_all add: process_score_processed)

lemma process_game_skip:
  "f \<in> set (processed_games state) \<or> \<not> game_valid gd \<Longrightarrow>
   process_game state f gd h = (state, h, gd, False)"
  by (auto simp: process_game_def game_valid_def Let_def split: option.splits)

lemma process_game_fold:
  "f \<notin> set (processed_games state) \<Longrightarrow> game_valid gd \<Longrightarrow>
   processed_games (fst (process_game state f gd h)) = processed_games state @ [f]"
  by (auto simp: process_game_def game_valid_def Let_def score_loop_processed split: option.splits)

lemma find_scores_empty:
  "\<forall>r \<in> set rs. rb_scores r = None \<or> rb_scores r = Some [] \<Longrightarrow>
   find_scores rs = None \<or> find_scores rs = Some []"
  by (induction rs) (auto split: option.splits)

lemma rejected_not_valid:
  assumes "dict_len (participants gd) \<noteq> 8 \<or>
     (\<forall>r \<in> set (results gd). rb_scores r = None \<or> rb_scores r = Some [])"
  shows "\<not> game_valid gd"
  using assms find_scores_empty[of "results gd"]
  by (auto simp: game_valid_def get_participants_from_game_def split: option.splits)

lemma process_game_processed_cases:
  "processed_games (fst (process_game state f gd h)) =
     (if f \<notin> set (processed_games state) \<and> game_valid gd
      then processed_games state @ [f] else processed_games state)"
  using process_game_skip[of f state gd h] process_game_fold[of f state gd h] by auto

lemma main_step_processed:
  "processed_games (ma_state (main_step acc (f, gd))) =
     (if f \<notin> set (processed_games (ma_state acc)) \<and> game_valid gd
      then processed_games (ma_state acc) @ [f] else processed_games (ma_state acc))"
proof (cases "f \<in> set (processed_games (ma_state acc))")
  case True
  then show ?thesis by (simp add: main_step_def)
next
  case False
  obtain st' h' gd' m where pg: "process_game (ma_state acc) f gd (ma_histories acc) = (st', h', gd', m)"
    by (cases "process_game (ma_state acc) f gd (ma_histories acc)") auto
  then have "processed_games (ma_state (main_step acc (f, gd))) = processed_games st'"
    using False by (simp add: main_step_def)
  also have "st' = fst (process_game (ma_state acc) f gd (ma_histories acc))" using pg by simp
  finally show ?thesis by (simp only: process_game_processed_cases)
qed

lemma main_loop_prefix:
  "prefix (processed_games (ma_state acc)) (processed_games (ma_state (main_loop acc files)))"
proof (induction files arbitrary: acc)
  case Nil
  then show ?case by simp
next
  case (Cons gf rest)
  obtain f gd where gf: "gf = (f, gd)" by (cases gf)
  have "prefix (processed_games (ma_state acc)) (processed_games (ma_state (main_step acc gf)))"
    unfolding gf main_step_processed by simp
  then show ?case using Cons[of "main_step acc gf"] by (auto intro: prefix_order.trans)
qed

lemma main_loop_distinct:
  "distinct (processed_games (ma_state acc)) \<Longrightarrow>
   distinct (processed_games (ma_state (main_loop acc files)))"
proof (induction files arbitrary: acc)
  case Nil
  then show ?case by simp
next
  case (Cons gf rest)
  obtain f gd where gf: "gf = (f, gd)" by (cases gf)
  have "distinct (processed_games (ma_state (main_step acc gf)))"
    unfolding gf main_step_processed using Cons.prems by simp
  then show ?case using Cons.IH[of "main_step acc gf"] by simp
qed

lemma game_wolf_first_valid: "game_valid game_wolf_first"
  by (simp add: game_valid_def game_wolf_first_def game_of_def eight_participants_def
      get_participants_from_game_def dict_len_def)

text \<open>
  C2. Applying a game whose identifier is already among the processed games changes nothing:
  the state, the histories and the game record come back as they were, \<^verbatim>\<open>process_game\<close>
  returns \<^verbatim>\<open>False\<close>, and the loop of \<^verbatim>\<open>main\<close> skips the file without touching its counters.
\<close>

theorem replay_is_noop:
  assumes "f \<in> set (processed_games state)"
  shows "process_game state f gd h = (state, h, gd, False)
    \<and> main_step \<lparr>ma_state = state, ma_histories = h, ma_files = fs,
          ma_files_modified = m, ma_games_processed = n\<rparr> (f, gd)
        = \<lparr>ma_state = state, ma_histories = h, ma_files = fs,
          ma_files_modified = m, ma_games_processed = n\<rparr>"
  using assms by (simp add: process_game_def main_step_def)

theorem replay_is_noop_witness:
  "let r = process_game empty_state ''game_1.json'' game_wolf_first [] in
     ''game_1.json'' \<in> set (processed_games (fst r))
     \<and> process_game (fst r) ''game_1.json'' (fst (snd (snd r))) (fst (snd r))
         = (fst r, fst (snd r), fst (snd (snd r)), False)"
proof -
  define r where "r = process_game empty_state ''game_1.json'' game_wolf_first []"
  have "processed_games (fst r) = [''game_1.json'']"
    unfolding r_def using process_game_fold[of "''game_1.json''" empty_state game_wolf_first "[]"]
    by (simp add: game_wolf_first_valid empty_state_def)
  then have m: "''game_1.json'' \<in> set (processed_games (fst r))" by simp
  show ?thesis
    unfolding Let_def r_def[symmetric]
    using m replay_is_noop[OF m, of "fst (snd (snd r))" "fst (snd r)"] by simp
qed

text \<open>
  C3. A game whose participant count is not 8, or none of whose result blocks has a non-empty
  scores list, is rejected: \<^verbatim>\<open>process_game\<close> returns \<^verbatim>\<open>False\<close> with the state, the histories and
  the game record unchanged, and the identifier is not added to the processed games, so a
  later run does not skip it.
\<close>

theorem rejection_is_atomic:
  assumes "dict_len (participants gd) \<noteq> 8 \<or>
     (\<forall>r \<in> set (results gd). rb_scores r = None \<or> rb_scores r = Some [])"
  shows "process_game state f gd h = (state, h, gd, False)
    \<and> agents (fst (process_game state f gd h)) = agents state
    \<and> processed_games (fst (process_game state f gd h)) = processed_games state
    \<and> (f \<notin> set (processed_games state) \<longrightarrow>
         f \<notin> set (processed_games (fst (process_game state f gd h))))"
  using process_game_skip[of f state gd h] rejected_not_valid[OF assms] by simp

theorem rejection_is_atomic_witness:
  "dict_len (participants (game_wolf_first\<lparr>participants := tl eight_participants\<rparr>)) \<noteq> 8
   \<and> process_game empty_state ''game_1.json'' (game_wolf_first\<lparr>participants := tl eight_participants\<rparr>) []
       = (empty_state, [], game_wolf_first\<lparr>participants := tl eight_participants\<rparr>, False)
   \<and> ''game_1.json'' \<notin> set (processed_games (fst (process_game empty_state ''game_1.json''
          (game_wolf_first\<lparr>participants := tl eight_participants\<rparr>) [])))
   \<and> dict_len (participants (game_wolf_first\<lparr>results :=
          [\<lparr>rb_scores = None, rb_winner = None, rb_action_log = []\<rparr>,
           \<lparr>rb_scores = Some [], rb_winner = None, rb_action_log = []\<rparr>]\<rparr>)) = 8
   \<and> process_game empty_state ''game_1.json'' (game_wolf_first\<lparr>results :=
          [\<lparr>rb_scores = None, rb_winner = None, rb_action_log = []\<rparr>,
           \<lparr>rb_scores = Some [], rb_winner = None, rb_action_log = []\<rparr>]\<rparr>) []
       = (empty_state, [], game_wolf_first\<lparr>results :=
          [\<lparr>rb_scores = None, rb_winner = None, rb_action_log = []\<rparr>,
           \<lparr>rb_scores = Some [], rb_winner = None, rb_action_log = []\<rparr>]\<rparr>, False)"
proof -
  let ?g7 = "game_wolf_first\<lparr>participants := tl eight_participants\<rparr>"
  let ?g0 = "game_wolf_first\<lparr>results :=
          [\<lparr>rb_scores = None, rb_winner = None, rb_action_log = []\<rparr>,
           \<lparr>rb_scores = Some [], rb_winner = None, rb_action_log = []\<rparr>]\<rparr>"
  have a: "dict_len (participants ?g7) \<noteq> 8"
    by (simp add: eight_participants_def dict_len_def)
  have b: "\<forall>r \<in> set (results ?g0). rb_scores r = None \<or> rb_scores r = Some []"
    by simp
  have c: "dict_len (participants ?g0) = 8"
    by (simp add: game_wolf_first_def game_of_def eight_participants_def dict_len_def)
  show ?thesis
    using a c rejection_is_atomic[of ?g7 empty_state "''game_1.json''" "[]"]
      rejection_is_atomic[of ?g0 empty_state "''game_1.json''" "[]"] b
    by (simp add: empty_state_def)
qed

text \<open>
  C9. The list of processed games only grows, at its end: over the loop of \<^verbatim>\<open>main\<close> and
  over one call of \<^verbatim>\<open>process_game\<close> the old list is a prefix of the new one, and a list
  without duplicates stays so. A game that is folded (not yet processed, and valid) appends
  its identifier once; applying an identifier that is already processed appends nothing.
\<close>

theorem processed_set_monotone:
  "prefix (processed_games (ma_state acc)) (processed_games (ma_state (main_loop acc files)))
   \<and> (distinct (processed_games (ma_state acc)) \<longrightarrow>
        distinct (processed_games (ma_state (main_loop acc files))))
   \<and> prefix (processed_games state) (processed_games (fst (process_game state f gd h)))
   \<and> (distinct (processed_games state) \<longrightarrow>
        distinct (processed_games (fst (process_game state f gd h))))
   \<and> (f \<notin> set (processed_games state) \<and> game_valid gd \<longrightarrow>
        processed_games (fst (process_game state f gd h)) = processed_games state @ [f])
   \<and> (f \<in> set (processed_games state) \<longrightarrow>
        processed_games (fst (process_game state f gd h)) = processed_games state)"
  using main_loop_prefix[of acc files] main_loop_distinct[of acc files]
  by (simp add: process_game_processed_cases)

theorem processed_set_monotone_witness:
  "distinct (processed_games empty_state)
   \<and> ''game_1.json'' \<notin> set (processed_games empty_state)
   \<and> game_valid game_wolf_first
   \<and> processed_games (fst (process_game empty_state ''game_1.json'' game_wolf_first []))
       = [''game_1.json'']
   \<and> ''game_1.json'' \<in> set [''game_1.json'']
   \<and> processed_games (fst (process_game \<lparr>agents = [], processed_games = [''game_1.json'']\<rparr>
         ''game_1.json'' game_wolf_first [])) = [''game_1.json'']
   \<and> distinct (processed_games (ma_state (main_loop
         \<lparr>ma_state = empty_state, ma_histories = [], ma_files = [],
          ma_files_modified = 0, ma_games_processed = 0\<rparr>
         [(''game_1.json'', game_wolf_first), (''game_1.json'', game_wolf_first)])))"
  using processed_set_monotone[of
      "\<lparr>ma_state = empty_state, ma_histories = [], ma_files = [],
          ma_files_modified = 0, ma_games_processed = 0\<rparr>"
      "[(''game_1.json'', game_wolf_first), (''game_1.json'', game_wolf_first)]"
      empty_state "''game_1.json''" game_wolf_first "[]"]
    processed_set_monotone[of
      "\<lparr>ma_state = empty_state, ma_histories = [], ma_files = [],
          ma_files_modified = 0, ma_games_processed = 0\<rparr>" "[]"
      "\<lparr>agents = [], processed_games = [''game_1.json'']\<rparr>" "''game_1.json''" game_wolf_first "[]"]
    game_wolf_first_valid
  by (simp add: empty_state_def)

subsection \<open>The agent entries\<close>

lemma set_update_subset: "set (AList.update k v al) \<subseteq> insert (k, v) (set al)"
  by (induction al) auto

lemma agent_entry_init: "agent_entry (init_agent_state state aid) aid = agent_entry state aid"
  by (simp add: agent_entry_def init_agent_state_def update_conv')

lemma agent_entry_cases:
  "agent_entry state aid = default_agent \<or> agent_entry state aid \<in> snd ` set (agents state)"
  by (auto simp: agent_entry_def split: option.splits dest: map_of_SomeD intro: rev_image_eqI)

lemma process_score_unmapped:
  "get_str parts (sc_player_name s) = [] \<Longrightarrow>
   la_state (process_score f ts parts scores acc s) = la_state acc"
  by (simp add: process_score_def)

lemma process_score_agents:
  assumes "get_str parts (sc_player_name s) \<noteq> []"
  shows "agents (la_state (process_score f ts parts scores acc s)) =
     AList.update (get_str parts (sc_player_name s))
       (update_agent (agent_entry (la_state acc) (get_str parts (sc_player_name s)))
          (py_round1 (get_agent_elo (init_agent_state (la_state acc) (get_str parts (sc_player_name s)))
                         (get_str parts (sc_player_name s)) General
             + calculate_elo_delta
                 (get_agent_elo (init_agent_state (la_state acc) (get_str parts (sc_player_name s)))
                    (get_str parts (sc_player_name s)) General)
                 (get_opponents_avg_elo (init_agent_state (la_state acc) (get_str parts (sc_player_name s)))
                    parts (sc_player_name s) (score_team s) scores General)
                 (score_won s)))
          (get_opponents_avg_elo (init_agent_state (la_state acc) (get_str parts (sc_player_name s)))
             parts (sc_player_name s) (score_team s) scores General)
          (score_won s) (score_team s))
       (agents (init_agent_state (la_state acc) (get_str parts (sc_player_name s))))"
  using assms by (simp add: process_score_def Let_def agent_entry_init)

lemma update_all:
  "\<forall>a \<in> snd ` set al. P a \<Longrightarrow> P v \<Longrightarrow> \<forall>a \<in> snd ` set (AList.update k v al). P a"
  by (induction al) auto

lemma update_agent_counters: "counters_ok a \<Longrightarrow> counters_ok (update_agent a e opp w t)"
  by (simp add: counters_ok_def update_agent_def Let_def)

lemma default_agent_counters: "counters_ok default_agent"
  by (simp add: counters_ok_def default_agent_def)

lemma init_agent_counters:
  assumes "\<forall>a \<in> snd ` set (agents state). counters_ok a"
  shows "\<forall>a \<in> snd ` set (agents (init_agent_state state aid)). counters_ok a"
  using assms set_update_subset[of aid default_agent "agents state"] default_agent_counters
  by (auto simp: init_agent_state_def)

lemma process_score_counters:
  assumes "\<forall>a \<in> snd ` set (agents (la_state acc)). counters_ok a"
  shows "\<forall>a \<in> snd ` set (agents (la_state (process_score f ts parts scores acc s))). counters_ok a"
proof (cases "get_str parts (sc_player_name s) = []")
  case True
  then show ?thesis using assms by (simp add: process_score_unmapped)
next
  case False
  let ?aid = "get_str parts (sc_player_name s)"
  have e: "counters_ok (agent_entry (la_state acc) ?aid)"
    using agent_entry_cases[of "la_state acc" ?aid] assms default_agent_counters by auto
  have i: "\<forall>a \<in> snd ` set (agents (init_agent_state (la_state acc) ?aid)). counters_ok a"
    using assms by (rule init_agent_counters)
  show ?thesis
    unfolding process_score_agents[OF False]
    by (rule update_all[OF i update_agent_counters[OF e]])
qed

lemma score_loop_counters:
  "\<forall>a \<in> snd ` set (agents (la_state acc)). counters_ok a \<Longrightarrow>
   \<forall>a \<in> snd ` set (agents (la_state (score_loop f ts parts scores acc ss))). counters_ok a"
proof (induction ss arbitrary: acc)
  case Nil
  then show ?case by simp
next
  case (Cons s ss)
  show ?case using Cons.IH[OF process_score_counters[OF Cons.prems]] by simp
qed


lemma process_game_fold_state:
  assumes "f \<notin> set (processed_games state)" "game_valid gd"
  shows "\<exists>scores. find_scores (results gd) = Some scores \<and> scores \<noteq> [] \<and>
     fst (process_game state f gd h) =
       (la_state (score_loop f (get_game_timestamps gd) (participants gd) scores
          \<lparr>la_state = state, la_histories = h, la_scores = [], la_modified = False\<rparr> scores))
       \<lparr>processed_games :=
          processed_games (la_state (score_loop f (get_game_timestamps gd) (participants gd) scores
            \<lparr>la_state = state, la_histories = h, la_scores = [], la_modified = False\<rparr> scores)) @ [f]\<rparr>"
  using assms
  by (auto simp: process_game_def game_valid_def Let_def get_participants_from_game_def
      split: option.splits)

text \<open>
  C4. If every agent of the state satisfies
  \<open>games_played = wins + losses = games_as_werewolf + games_as_villager\<close> before a game is
  applied, every agent of the state satisfies it afterwards, whatever the game. An agent
  that the game introduces starts from the default entry, all of whose counters are 0.
\<close>

theorem counter_invariant_preserved:
  assumes "\<forall>a \<in> snd ` set (agents state). counters_ok a"
  shows "(\<forall>a \<in> snd ` set (agents (fst (process_game state f gd h))). counters_ok a)
    \<and> counters_ok default_agent
    \<and> games_played default_agent = 0 \<and> wins default_agent = 0 \<and> losses default_agent = 0
    \<and> games_as_werewolf default_agent = 0 \<and> games_as_villager default_agent = 0"
proof -
  have "\<forall>a \<in> snd ` set (agents (fst (process_game state f gd h))). counters_ok a"
  proof (cases "f \<in> set (processed_games state) \<or> \<not> game_valid gd")
    case True
    then show ?thesis using process_game_skip[OF True, of h] assms by simp
  next
    case False
    then obtain scores where
      "fst (process_game state f gd h) =
       (la_state (score_loop f (get_game_timestamps gd) (participants gd) scores
          \<lparr>la_state = state, la_histories = h, la_scores = [], la_modified = False\<rparr> scores))
       \<lparr>processed_games :=
          processed_games (la_state (score_loop f (get_game_timestamps gd) (participants gd) scores
            \<lparr>la_state = state, la_histories = h, la_scores = [], la_modified = False\<rparr> scores)) @ [f]\<rparr>"
      using process_game_fold_state[of f state gd h] by blast
    moreover have "\<forall>a \<in> snd ` set (agents (la_state (score_loop f (get_game_timestamps gd) (participants gd) scores
          \<lparr>la_state = state, la_histories = h, la_scores = [], la_modified = False\<rparr> scores))). counters_ok a"
      by (rule score_loop_counters) (use assms in simp)
    ultimately show ?thesis by simp
  qed
  then show ?thesis using default_agent_counters by (simp add: default_agent_def)
qed

theorem counter_invariant_preserved_witness:
  "list_all counters_ok (map snd (agents
      \<lparr>agents = [(''w1'', default_agent\<lparr>general_elo := 984, werewolf_elo := 984,
           games_played := 1, losses := 1, games_as_werewolf := 1\<rparr>)], processed_games = [''game_0.json'']\<rparr>))
   \<and> list_all counters_ok (map snd (agents (fst (process_game
      \<lparr>agents = [(''w1'', default_agent\<lparr>general_elo := 984, werewolf_elo := 984,
           games_played := 1, losses := 1, games_as_werewolf := 1\<rparr>)], processed_games = [''game_0.json'']\<rparr>
      ''game_1.json'' game_wolf_first []))))"
proof -
  let ?st = "\<lparr>agents = [(''w1'', default_agent\<lparr>general_elo := 984, werewolf_elo := 984,
           games_played := 1, losses := 1, games_as_werewolf := 1\<rparr>)], processed_games = [''game_0.json'']\<rparr>"
  have h: "\<forall>a \<in> snd ` set (agents ?st). counters_ok a"
    by (simp add: counters_ok_def default_agent_def)
  show ?thesis
    using h counter_invariant_preserved[OF h, of "''game_1.json''" game_wolf_first "[]"]
    by (simp only: list_all_iff set_map) simp
qed

lemma get_agent_elo_init:
  "get_agent_elo (init_agent_state state aid) aid t = elo_field t (agent_entry state aid)"
  by (cases t) (simp_all add: get_agent_elo_def init_agent_state_def agent_entry_def update_conv'
      default_agent_def split: option.splits)

lemma process_score_entry:
  assumes "get_str parts (sc_player_name s) \<noteq> []"
  shows "agent_entry (la_state (process_score f ts parts scores acc s)) (get_str parts (sc_player_name s)) =
     update_agent (agent_entry (la_state acc) (get_str parts (sc_player_name s)))
       (py_round1 (general_elo (agent_entry (la_state acc) (get_str parts (sc_player_name s)))
          + calculate_elo_delta
              (general_elo (agent_entry (la_state acc) (get_str parts (sc_player_name s))))
              (get_opponents_avg_elo (init_agent_state (la_state acc) (get_str parts (sc_player_name s)))
                 parts (sc_player_name s) (score_team s) scores General)
              (score_won s)))
       (get_opponents_avg_elo (init_agent_state (la_state acc) (get_str parts (sc_player_name s)))
          parts (sc_player_name s) (score_team s) scores General)
       (score_won s) (score_team s)"
  unfolding agent_entry_def[of "la_state (process_score f ts parts scores acc s)"]
    process_score_agents[OF assms] update_conv' get_agent_elo_init
  by simp

text \<open>
  C10. Applying one entry of the scores list whose slot is mapped to an agent takes exactly
  one role branch. When the team label is \<open>werewolves\<close> the agent's werewolf games, wins and
  rating are updated and its villager games, wins and rating are left as they were; with any
  other label, the missing one included (read as the empty string), it is the other way
  round.
\<close>

theorem role_dichotomy:
  assumes "get_str parts (sc_player_name s) \<noteq> []"
  shows
    "let agent_id = get_str parts (sc_player_name s);
         before = agent_entry (la_state acc) agent_id;
         after = agent_entry (la_state (process_score f ts parts scores acc s)) agent_id;
         opponents_avg = get_opponents_avg_elo (init_agent_state (la_state acc) agent_id)
                           parts (sc_player_name s) (score_team s) scores General;
         won = score_won s
     in if score_team s = ''werewolves''
        then games_as_werewolf after = games_as_werewolf before + 1
           \<and> wins_as_werewolf after = wins_as_werewolf before + (if won then 1 else 0)
           \<and> werewolf_elo after =
               py_round1 (werewolf_elo before
                          + calculate_elo_delta (werewolf_elo before) opponents_avg won)
           \<and> games_as_villager after = games_as_villager before
           \<and> wins_as_villager after = wins_as_villager before
           \<and> villager_elo after = villager_elo before
        else games_as_villager after = games_as_villager before + 1
           \<and> wins_as_villager after = wins_as_villager before + (if won then 1 else 0)
           \<and> villager_elo after =
               py_round1 (villager_elo before
                          + calculate_elo_delta (villager_elo before) opponents_avg won)
           \<and> games_as_werewolf after = games_as_werewolf before
           \<and> wins_as_werewolf after = wins_as_werewolf before
           \<and> werewolf_elo after = werewolf_elo before"
  unfolding Let_def process_score_entry[OF assms]
  by (simp add: update_agent_def Let_def)


theorem role_dichotomy_witness:
  "get_str eight_participants ''Player_1'' \<noteq> []
   \<and> get_str eight_participants ''Player_2'' \<noteq> []
   \<and> score_team (mk_score ''Player_1'' ''werewolves'' False) = ''werewolves''
   \<and> games_as_werewolf (agent_entry (la_state (process_score ''game_1.json'' (None, None)
         eight_participants
         [mk_score ''Player_1'' ''werewolves'' False, (mk_score ''Player_2'' [] True)\<lparr>sc_team := None\<rparr>]
         \<lparr>la_state = empty_state, la_histories = [], la_scores = [], la_modified = False\<rparr>
         (mk_score ''Player_1'' ''werewolves'' False))) ''w1'') = 1
   \<and> games_as_villager (agent_entry (la_state (process_score ''game_1.json'' (None, None)
         eight_participants
         [mk_score ''Player_1'' ''werewolves'' False, (mk_score ''Player_2'' [] True)\<lparr>sc_team := None\<rparr>]
         \<lparr>la_state = empty_state, la_histories = [], la_scores = [], la_modified = False\<rparr>
         (mk_score ''Player_1'' ''werewolves'' False))) ''w1'') = 0
   \<and> villager_elo (agent_entry (la_state (process_score ''game_1.json'' (None, None)
         eight_participants
         [mk_score ''Player_1'' ''werewolves'' False, (mk_score ''Player_2'' [] True)\<lparr>sc_team := None\<rparr>]
         \<lparr>la_state = empty_state, la_histories = [], la_scores = [], la_modified = False\<rparr>
         (mk_score ''Player_1'' ''werewolves'' False))) ''w1'') = 1000
   \<and> score_team ((mk_score ''Player_2'' [] True)\<lparr>sc_team := None\<rparr>) \<noteq> ''werewolves''
   \<and> games_as_villager (agent_entry (la_state (process_score ''game_1.json'' (None, None)
         eight_participants
         [mk_score ''Player_1'' ''werewolves'' False, (mk_score ''Player_2'' [] True)\<lparr>sc_team := None\<rparr>]
         \<lparr>la_state = empty_state, la_histories = [], la_scores = [], la_modified = False\<rparr>
         ((mk_score ''Player_2'' [] True)\<lparr>sc_team := None\<rparr>))) ''v1'') = 1
   \<and> wins_as_villager (agent_entry (la_state (process_score ''game_1.json'' (None, None)
         eight_participants
         [mk_score ''Player_1'' ''werewolves'' False, (mk_score ''Player_2'' [] True)\<lparr>sc_team := None\<rparr>]
         \<lparr>la_state = empty_state, la_histories = [], la_scores = [], la_modified = False\<rparr>
         ((mk_score ''Player_2'' [] True)\<lparr>sc_team := None\<rparr>))) ''v1'') = 1
   \<and> games_as_werewolf (agent_entry (la_state (process_score ''game_1.json'' (None, None)
         eight_participants
         [mk_score ''Player_1'' ''werewolves'' False, (mk_score ''Player_2'' [] True)\<lparr>sc_team := None\<rparr>]
         \<lparr>la_state = empty_state, la_histories = [], la_scores = [], la_modified = False\<rparr>
         ((mk_score ''Player_2'' [] True)\<lparr>sc_team := None\<rparr>))) ''v1'') = 0
   \<and> werewolf_elo (agent_entry (la_state (process_score ''game_1.json'' (None, None)
         eight_participants
         [mk_score ''Player_1'' ''werewolves'' False, (mk_score ''Player_2'' [] True)\<lparr>sc_team := None\<rparr>]
         \<lparr>la_state = empty_state, la_histories = [], la_scores = [], la_modified = False\<rparr>
         ((mk_score ''Player_2'' [] True)\<lparr>sc_team := None\<rparr>))) ''v1'') = 1000"
proof -
  let ?sw = "mk_score ''Player_1'' ''werewolves'' False"
  let ?sv = "(mk_score ''Player_2'' [] True)\<lparr>sc_team := None\<rparr>"
  let ?acc = "\<lparr>la_state = empty_state, la_histories = [], la_scores = [], la_modified = False\<rparr>"
  have w: "get_str eight_participants (sc_player_name ?sw) \<noteq> []"
    by (simp add: get_str_def eight_participants_def mk_score_def)
  have v: "get_str eight_participants (sc_player_name ?sv) \<noteq> []"
    by (simp add: get_str_def eight_participants_def mk_score_def)
  have iw: "get_str eight_participants ''Player_1'' = ''w1''"
    and iv: "get_str eight_participants ''Player_2'' = ''v1''"
    by (simp_all add: get_str_def eight_participants_def)
  have nw: "sc_player_name ?sw = ''Player_1''" and nv: "sc_player_name ?sv = ''Player_2''"
    by (simp_all add: mk_score_def)
  have tw: "score_team ?sw = ''werewolves''" and tv: "score_team ?sv = []"
    and wv: "score_won ?sv"
    by (simp_all add: score_team_def score_won_def mk_score_def)
  have e: "agent_entry empty_state ''w1'' = default_agent"
    "agent_entry empty_state ''v1'' = default_agent"
    by (simp_all add: agent_entry_def empty_state_def)
  note a = role_dichotomy[OF w, of ?acc "''game_1.json''" "(None, None)" "[?sw, ?sv]",
      unfolded Let_def nw iw tw, simplified e]
  note b = role_dichotomy[OF v, of ?acc "''game_1.json''" "(None, None)" "[?sw, ?sv]",
      unfolded Let_def nv iv tv, simplified e wv]
  show ?thesis
    using a b by (simp add: iw iv tw tv wv e default_agent_def INITIAL_ELO_def)
qed

subsection \<open>Opponent averaging\<close>

lemma opponent_elos_loop_eq:
  "opponent_elos_loop state parts player_name player_team t acc scores =
     acc @ map (\<lambda>s. get_agent_elo state (get_str parts (sc_player_name s)) t)
             (mapped_opponents parts player_name player_team scores)"
  by (induction scores arbitrary: acc) (simp_all add: mapped_opponents_def Let_def)

lemma all_mapped_opponents:
  assumes "\<forall>s \<in> set scores. sc_player_name s \<noteq> player_name \<and> score_team s \<noteq> player_team
             \<longrightarrow> get_str parts (sc_player_name s) \<noteq> []"
  shows "mapped_opponents parts player_name player_team scores =
     filter (\<lambda>s. sc_player_name s \<noteq> player_name \<and> score_team s \<noteq> player_team) scores"
  unfolding mapped_opponents_def using assms by (intro filter_cong) auto

text \<open>
  C7, as the code has it. The opponents' average of a player is the mean of the general
  ratings (1000 for an agent that the state does not hold) of the agents of those other
  entries of the scores list whose team label differs from the player's and whose slot is
  mapped to a non-empty agent identifier; it is 1000 when there is no such entry. Where
  every other entry with a different team label is mapped, this is the mean over all of
  them.
\<close>

theorem opponents_avg_of_mapped:
  "get_opponents_avg_elo state parts player_name player_team scores General =
     (let ratings = map (\<lambda>s. get_agent_elo state (get_str parts (sc_player_name s)) General)
                      (mapped_opponents parts player_name player_team scores)
      in if ratings = [] then 1000 else sum_list ratings / real (length ratings))
   \<and> ((\<forall>s \<in> set scores. sc_player_name s \<noteq> player_name \<and> score_team s \<noteq> player_team
             \<longrightarrow> get_str parts (sc_player_name s) \<noteq> [])
       \<longrightarrow> get_opponents_avg_elo state parts player_name player_team scores General =
           spec_opponents_avg state parts player_name player_team scores)
   \<and> (map_of (agents state) agent_id = None \<longrightarrow> get_agent_elo state agent_id General = 1000)"
proof -
  have a: "get_opponents_avg_elo state parts player_name player_team scores General =
     (let ratings = map (\<lambda>s. get_agent_elo state (get_str parts (sc_player_name s)) General)
                      (mapped_opponents parts player_name player_team scores)
      in if ratings = [] then 1000 else sum_list ratings / real (length ratings))"
    by (simp add: get_opponents_avg_elo_def opponent_elos_loop_eq Let_def INITIAL_ELO_def)
  have b: "get_opponents_avg_elo state parts player_name player_team scores General =
           spec_opponents_avg state parts player_name player_team scores"
    if "\<forall>s \<in> set scores. sc_player_name s \<noteq> player_name \<and> score_team s \<noteq> player_team
             \<longrightarrow> get_str parts (sc_player_name s) \<noteq> []"
    unfolding a spec_opponents_avg_def all_mapped_opponents[OF that] by (simp add: Let_def)
  have c: "get_agent_elo state agent_id General = 1000" if "map_of (agents state) agent_id = None"
    using that by (simp add: get_agent_elo_def INITIAL_ELO_def)
  show ?thesis using a b c by blast
qed

text \<open>
  The claim C7 as stated, with the mean over all other entries of a different team label,
  fails where such an entry has no mapped agent: the code leaves the entry out of the mean,
  where the statement counts it with the default rating.
\<close>

theorem opponents_avg_counterexample:
  "get_opponents_avg_elo
      \<lparr>agents = [(''w1'', default_agent\<lparr>general_elo := 1200\<rparr>)], processed_games = []\<rparr>
      (butlast eight_participants @ [(''Player_8'', [])])
      ''Player_2'' ''villagers''
      (mk_score ''Player_1'' ''werewolves'' False # mk_score ''Player_2'' ''villagers'' True
         # other_six) General = 1200
   \<and> spec_opponents_avg
      \<lparr>agents = [(''w1'', default_agent\<lparr>general_elo := 1200\<rparr>)], processed_games = []\<rparr>
      (butlast eight_participants @ [(''Player_8'', [])])
      ''Player_2'' ''villagers''
      (mk_score ''Player_1'' ''werewolves'' False # mk_score ''Player_2'' ''villagers'' True
         # other_six) = 1100"
  by (simp add: get_opponents_avg_elo_def spec_opponents_avg_def Let_def eight_participants_def
      other_six_def mk_score_def score_team_def get_str_def get_agent_elo_def INITIAL_ELO_def)

theorem opponents_avg_of_mapped_witness:
  "map_of (agents empty_state) ''v1'' = None
   \<and> get_agent_elo empty_state ''v1'' General = 1000
   \<and> get_opponents_avg_elo
      \<lparr>agents = [(''v1'', default_agent\<lparr>general_elo := 1016\<rparr>)], processed_games = []\<rparr>
      eight_participants ''Player_1'' ''werewolves''
      (mk_score ''Player_2'' ''villagers'' True # mk_score ''Player_1'' ''werewolves'' False
         # other_six) General
     = spec_opponents_avg
      \<lparr>agents = [(''v1'', default_agent\<lparr>general_elo := 1016\<rparr>)], processed_games = []\<rparr>
      eight_participants ''Player_1'' ''werewolves''
      (mk_score ''Player_2'' ''villagers'' True # mk_score ''Player_1'' ''werewolves'' False
         # other_six)
   \<and> get_opponents_avg_elo
      \<lparr>agents = [(''v1'', default_agent\<lparr>general_elo := 1016\<rparr>)], processed_games = []\<rparr>
      eight_participants ''Player_1'' ''werewolves''
      (mk_score ''Player_2'' ''villagers'' True # mk_score ''Player_1'' ''werewolves'' False
         # other_six) General = 6016 / 6"
proof -
  let ?st = "\<lparr>agents = [(''v1'', default_agent\<lparr>general_elo := 1016\<rparr>)], processed_games = []\<rparr>"
  let ?scores = "mk_score ''Player_2'' ''villagers'' True # mk_score ''Player_1'' ''werewolves'' False
         # other_six"
  have m: "\<forall>s \<in> set ?scores. sc_player_name s \<noteq> ''Player_1'' \<and> score_team s \<noteq> ''werewolves''
             \<longrightarrow> get_str eight_participants (sc_player_name s) \<noteq> []"
    by (simp add: other_six_def mk_score_def score_team_def get_str_def eight_participants_def)
  have n: "map_of (agents empty_state) ''v1'' = None" by (simp add: empty_state_def)
  have v: "spec_opponents_avg ?st eight_participants ''Player_1'' ''werewolves'' ?scores = 6016 / 6"
    by (simp add: spec_opponents_avg_def Let_def eight_participants_def
      other_six_def mk_score_def score_team_def get_str_def get_agent_elo_def INITIAL_ELO_def)
  show ?thesis
    using m n v
      opponents_avg_of_mapped[of ?st eight_participants "''Player_1''" "''werewolves''" ?scores
        "''v1''"]
      opponents_avg_of_mapped[of empty_state eight_participants "''Player_1''" "''werewolves''" ?scores
        "''v1''"]
    by simp
qed

subsection \<open>The order of the scores list\<close>

lemma pow10_150: "((10::real) powr (1 / 150)) ^ 150 = 10"
proof -
  have "((10::real) powr (1 / 150)) ^ 150 = (10 powr (1 / 150)) powr (real 150)"
    by (subst powr_realpow) simp_all
  also have "\<dots> = 10 powr ((1 / 150) * real 150)" by (simp only: powr_powr)
  also have "\<dots> = 10" by simp
  finally show ?thesis .
qed

lemma pow10_lower: "151 / 150 < (10::real) powr (1 / 150)"
proof (rule ccontr)
  assume "\<not> 151 / 150 < (10::real) powr (1 / 150)"
  then have "(10::real) powr (1 / 150) \<le> 151 / 150" by simp
  then have "((10::real) powr (1 / 150)) ^ 150 \<le> (151 / 150) ^ 150"
    by (intro power_mono) simp_all
  then have "(10::real) \<le> (151 / 150) ^ 150" by (simp only: pow10_150)
  moreover have "(151 / 150 :: real) ^ 150 < 10" by (simp add: power_divide)
  ultimately show False by simp
qed

lemma pow10_upper: "(10::real) powr (1 / 150) < 509 / 500"
proof (rule ccontr)
  assume "\<not> (10::real) powr (1 / 150) < 509 / 500"
  then have "509 / 500 \<le> (10::real) powr (1 / 150)" by simp
  then have "(509 / 500) ^ 150 \<le> ((10::real) powr (1 / 150)) ^ 150"
    by (intro power_mono) simp_all
  then have "(509 / 500) ^ 150 \<le> (10::real)" by (simp only: pow10_150)
  moreover have "(10::real) < (509 / 500) ^ 150" by (simp add: power_divide)
  ultimately show False by simp
qed

lemma delta_after_villager: "calculate_elo_delta 1000 (3008 / 3) False = - 159 / 10"
proof -
  define p where "p = (10::real) powr (1 / 150)"
  have lo: "151 / 150 < p" and hi: "p < 509 / 500"
    unfolding p_def by (rule pow10_lower, rule pow10_upper)
  have e: "(3008 / 3 - 1000) / 400 = (1 / 150 :: real)" by simp
  have x: "K_FACTOR * ((if False then 1 else 0) - calculate_expected_score 1000 (3008 / 3))
           = - (32 / (1 + p))"
    unfolding calculate_expected_score_def e K_FACTOR_def p_def by simp
  have pos: "0 < 1 + p" using lo by simp
  have a: "1585 / 10 < 320 / (1 + p)"
    using pos hi by (simp add: pos_less_divide_eq)
  have b: "320 / (1 + p) < 1595 / 10"
    using pos lo by (simp add: pos_divide_less_eq)
  have "\<bar>- (32 / (1 + p)) * 10 - of_int (- 159)\<bar> < 1 / 2"
    using a b by (simp add: abs_if) 
  then have "py_round1 (- (32 / (1 + p))) = of_int (- 159) / 10" by (rule py_round1_near)
  then show ?thesis unfolding calculate_elo_delta_def Let_def x by simp
qed

lemma get_agent_elo_entry: "get_agent_elo state aid t = elo_field t (agent_entry state aid)"
  by (cases t) (simp_all add: get_agent_elo_def agent_entry_def default_agent_def
      split: option.splits)

lemma agent_entry_init_any:
  "agent_entry (init_agent_state state a) b = agent_entry state b"
  by (cases "a = b") (simp_all add: agent_entry_init, simp add: agent_entry_def
      init_agent_state_def update_conv')

lemma process_score_other:
  assumes "get_str parts (sc_player_name s) \<noteq> aid"
  shows "agent_entry (la_state (process_score f ts parts scores acc s)) aid =
         agent_entry (la_state acc) aid"
proof (cases "get_str parts (sc_player_name s) = []")
  case True
  then show ?thesis by (simp add: process_score_unmapped)
next
  case False
  have "agent_entry (la_state (process_score f ts parts scores acc s)) aid =
        agent_entry (init_agent_state (la_state acc) (get_str parts (sc_player_name s))) aid"
    unfolding agent_entry_def[of "la_state (process_score f ts parts scores acc s)"]
      process_score_agents[OF False] update_conv'
    using assms by (simp add: agent_entry_def)
  then show ?thesis by (simp only: agent_entry_init_any)
qed

lemma score_loop_other:
  "\<forall>s \<in> set rest. get_str parts (sc_player_name s) \<noteq> aid \<Longrightarrow>
   agent_entry (la_state (score_loop f ts parts scores acc rest)) aid =
   agent_entry (la_state acc) aid"
  by (induction rest arbitrary: acc) (simp_all add: process_score_other)

lemma opponents_avg_entries:
  "get_opponents_avg_elo state parts player_name player_team scores t =
     (let ratings = map (\<lambda>aid. elo_field t (agent_entry state aid))
                      (map (\<lambda>s. get_str parts (sc_player_name s))
                         (mapped_opponents parts player_name player_team scores))
      in if ratings = [] then 1000 else sum_list ratings / real (length ratings))"
  by (simp add: get_opponents_avg_elo_def opponent_elos_loop_eq Let_def INITIAL_ELO_def
      get_agent_elo_entry comp_def)

lemma process_game_fold_agents:
  assumes "f \<notin> set (processed_games state)" "find_scores (results gd) = Some scores"
    "scores \<noteq> []" "dict_len (participants gd) = 8"
  shows "agent_entry (fst (process_game state f gd h)) aid =
     agent_entry (la_state (score_loop f (get_game_timestamps gd) (participants gd) scores
          \<lparr>la_state = state, la_histories = h, la_scores = [], la_modified = False\<rparr> scores)) aid"
  using assms
  by (simp add: process_game_def Let_def get_participants_from_game_def agent_entry_def)

lemma other_six_not_w1:
  "\<forall>s \<in> set other_six. get_str eight_participants (sc_player_name s) \<noteq> ''w1''"
  by (simp add: other_six_def mk_score_def get_str_def eight_participants_def)

lemma eight_len: "dict_len eight_participants = 8"
  by (simp add: dict_len_def eight_participants_def)

lemma wolf_first_w1:
  "agent_entry (fst (process_game empty_state ''game_1.json'' game_wolf_first [])) ''w1'' =
     update_agent default_agent 984 1000 False ''werewolves''"
proof -
  let ?sw = "mk_score ''Player_1'' ''werewolves'' False"
  let ?sv = "mk_score ''Player_2'' ''villagers'' True"
  let ?scores = "?sw # ?sv # other_six"
  let ?acc = "\<lparr>la_state = empty_state, la_histories = [], la_scores = [], la_modified = False\<rparr>"
  let ?ts = "get_game_timestamps game_wolf_first"
  have fs: "find_scores (results game_wolf_first) = Some ?scores"
    and ps: "participants game_wolf_first = eight_participants"
    by (simp_all add: game_wolf_first_def game_of_def)
  have np: "''game_1.json'' \<notin> set (processed_games empty_state)"
    by (simp add: empty_state_def)
  have iw: "get_str eight_participants ''Player_1'' = ''w1''"
    and tw: "score_team ?sw = ''werewolves''" and ww: "score_won ?sw = False"
    and nw: "sc_player_name ?sw = ''Player_1''"
    by (simp_all add: get_str_def eight_participants_def mk_score_def score_team_def score_won_def)
  have ne: "get_str eight_participants (sc_player_name ?sw) \<noteq> []" by (simp add: nw iw)
  have e0: "agent_entry empty_state aid = default_agent" for aid
    by (simp add: agent_entry_def empty_state_def)
  have opp: "get_opponents_avg_elo (init_agent_state empty_state ''w1'') eight_participants
       ''Player_1'' ''werewolves'' ?scores General = 1000"
    unfolding opponents_avg_entries agent_entry_init_any e0
    by (simp add: mapped_opponents_def other_six_def mk_score_def score_team_def get_str_def
        eight_participants_def default_agent_def INITIAL_ELO_def)
  have r: "py_round1 984 = 984" using py_round1_int[of 984] by simp
  have step: "agent_entry (la_state (process_score ''game_1.json'' ?ts eight_participants ?scores ?acc ?sw)) ''w1''
      = update_agent default_agent 984 1000 False ''werewolves''"
    using process_score_entry[OF ne, of "''game_1.json''" ?ts ?scores ?acc]
    unfolding tw ww nw iw
    by (simp add: e0 opp delta_equal_ratings default_agent_def INITIAL_ELO_def r)
  have rest: "\<forall>s \<in> set (?sv # other_six). get_str eight_participants (sc_player_name s) \<noteq> ''w1''"
    using other_six_not_w1 by (simp add: mk_score_def get_str_def eight_participants_def)
  have "agent_entry (fst (process_game empty_state ''game_1.json'' game_wolf_first [])) ''w1'' =
     agent_entry (la_state (score_loop ''game_1.json'' ?ts eight_participants ?scores ?acc ?scores)) ''w1''"
    using process_game_fold_agents[OF np fs, of "[]" "''w1''"] eight_len by (simp add: ps)
  also have "\<dots> = agent_entry (la_state (process_score ''game_1.json'' ?ts eight_participants ?scores ?acc ?sw)) ''w1''"
    using score_loop_other[OF rest] by simp
  finally show ?thesis by (simp only: step)
qed

lemma villager_first_w1:
  "agent_entry (fst (process_game empty_state ''game_1.json'' game_villager_first [])) ''w1'' =
     update_agent default_agent (9841 / 10) (3008 / 3) False ''werewolves''"
proof -
  let ?sw = "mk_score ''Player_1'' ''werewolves'' False"
  let ?sv = "mk_score ''Player_2'' ''villagers'' True"
  let ?scores = "?sv # ?sw # other_six"
  let ?acc = "\<lparr>la_state = empty_state, la_histories = [], la_scores = [], la_modified = False\<rparr>"
  let ?ts = "get_game_timestamps game_villager_first"
  let ?acc1 = "process_score ''game_1.json'' ?ts eight_participants ?scores ?acc ?sv"
  have fs: "find_scores (results game_villager_first) = Some ?scores"
    and ps: "participants game_villager_first = eight_participants"
    by (simp_all add: game_villager_first_def game_of_def)
  have np: "''game_1.json'' \<notin> set (processed_games empty_state)"
    by (simp add: empty_state_def)
  have iw: "get_str eight_participants ''Player_1'' = ''w1''"
    and tw: "score_team ?sw = ''werewolves''" and ww: "score_won ?sw = False"
    and nw: "sc_player_name ?sw = ''Player_1''"
    and iv: "get_str eight_participants ''Player_2'' = ''v1''"
    and tv: "score_team ?sv = ''villagers''" and wv: "score_won ?sv = True"
    and nv: "sc_player_name ?sv = ''Player_2''"
    by (simp_all add: get_str_def eight_participants_def mk_score_def score_team_def score_won_def)
  have new: "get_str eight_participants (sc_player_name ?sw) \<noteq> []" by (simp add: nw iw)
  have nev: "get_str eight_participants (sc_player_name ?sv) \<noteq> []" by (simp add: nv iv)
  have e0: "agent_entry empty_state aid = default_agent" for aid
    by (simp add: agent_entry_def empty_state_def)
  have oppv: "get_opponents_avg_elo (init_agent_state empty_state ''v1'') eight_participants
       ''Player_2'' ''villagers'' ?scores General = 1000"
    unfolding opponents_avg_entries agent_entry_init_any e0
    by (simp add: mapped_opponents_def other_six_def mk_score_def score_team_def get_str_def
        eight_participants_def default_agent_def INITIAL_ELO_def)
  have r: "py_round1 1016 = 1016" using py_round1_int[of 1016] by simp
  have v1: "agent_entry (la_state ?acc1) ''v1'' = update_agent default_agent 1016 1000 True ''villagers''"
    using process_score_entry[OF nev, of "''game_1.json''" ?ts ?scores ?acc]
    unfolding tv wv nv iv
    by (simp add: e0 oppv delta_equal_ratings default_agent_def INITIAL_ELO_def r)
  have others: "agent_entry (la_state ?acc1) aid = default_agent" if "aid \<noteq> ''v1''" for aid
    using process_score_other[of eight_participants ?sv aid "''game_1.json''" ?ts ?scores ?acc] that
    by (simp add: nv iv e0)
  have g1: "general_elo (agent_entry (la_state ?acc1) ''v1'') = 1016"
    unfolding v1 by (simp add: update_agent_def Let_def)
  have idsw: "map (\<lambda>s. get_str eight_participants (sc_player_name s))
       (mapped_opponents eight_participants ''Player_1'' ''werewolves'' ?scores) =
       [''v1'', ''v2'', ''v3'', ''v4'', ''v5'', ''v6'']"
    by (simp add: mapped_opponents_def other_six_def mk_score_def score_team_def get_str_def
        eight_participants_def)
  have oppw: "get_opponents_avg_elo (init_agent_state (la_state ?acc1) ''w1'') eight_participants
       ''Player_1'' ''werewolves'' ?scores General = 3008 / 3"
    unfolding opponents_avg_entries agent_entry_init_any idsw
    by (simp add: g1 others default_agent_def INITIAL_ELO_def)
  have r2: "py_round1 (9841 / 10) = 9841 / 10"
    using py_round1_near[of "9841 / 10" 9841] by simp
  have step: "agent_entry (la_state (process_score ''game_1.json'' ?ts eight_participants ?scores ?acc1 ?sw)) ''w1''
      = update_agent default_agent (9841 / 10) (3008 / 3) False ''werewolves''"
    using process_score_entry[OF new, of "''game_1.json''" ?ts ?scores ?acc1]
    unfolding tw ww nw iw oppw
    by (simp add: others delta_after_villager default_agent_def INITIAL_ELO_def r2)
  have rest: "\<forall>s \<in> set other_six. get_str eight_participants (sc_player_name s) \<noteq> ''w1''"
    by (rule other_six_not_w1)
  have "agent_entry (fst (process_game empty_state ''game_1.json'' game_villager_first [])) ''w1'' =
     agent_entry (la_state (score_loop ''game_1.json'' ?ts eight_participants ?scores ?acc ?scores)) ''w1''"
    using process_game_fold_agents[OF np fs, of "[]" "''w1''"] eight_len by (simp add: ps)
  also have "\<dots> = agent_entry (la_state (process_score ''game_1.json'' ?ts eight_participants ?scores ?acc1 ?sw)) ''w1''"
    using score_loop_other[OF rest] by simp
  finally show ?thesis by (simp only: step)
qed

text \<open>
  C1 asks that permuting the scores list of a game leaves every final rating unchanged. The
  loop updates the state entry by entry, and the opponents' average of an entry reads the
  ratings that the entries before it have already updated. On the game of eight players
  above, applied to the empty state, the two orders of the first two entries give the agent
  \<open>w1\<close> different final ratings: 984 when its entry comes first (all opponents still at
  1000), and 984.1 when the winning villager \<open>v1\<close> comes first (already at 1016 when the
  average is taken), for the general and for the werewolf rating.
\<close>

theorem order_dependence:
  "find_scores (results game_wolf_first) =
     Some (mk_score ''Player_1'' ''werewolves'' False # mk_score ''Player_2'' ''villagers'' True
           # other_six)
   \<and> find_scores (results game_villager_first) =
     Some (mk_score ''Player_2'' ''villagers'' True # mk_score ''Player_1'' ''werewolves'' False
           # other_six)
   \<and> participants game_wolf_first = participants game_villager_first
   \<and> get_agent_elo (fst (process_game empty_state ''game_1.json'' game_wolf_first []))
        ''w1'' General = 984
   \<and> get_agent_elo (fst (process_game empty_state ''game_1.json'' game_villager_first []))
        ''w1'' General = 9841 / 10
   \<and> get_agent_elo (fst (process_game empty_state ''game_1.json'' game_wolf_first []))
        ''w1'' Werewolf = 984
   \<and> get_agent_elo (fst (process_game empty_state ''game_1.json'' game_villager_first []))
        ''w1'' Werewolf = 9841 / 10"
proof -
  have r: "py_round1 984 = 984" using py_round1_int[of 984] by simp
  have r2: "py_round1 (9841 / 10) = 9841 / 10"
    using py_round1_near[of "9841 / 10" 9841] by simp
  show ?thesis
    unfolding get_agent_elo_entry wolf_first_w1 villager_first_w1
    by (simp add: game_wolf_first_def game_villager_first_def game_of_def update_agent_def
        Let_def default_agent_def INITIAL_ELO_def delta_equal_ratings delta_after_villager r r2)
qed

subsection \<open>Doubles\<close>

lemma rhe_of_int: "round_half_even (of_int m) = m"
  by (simp add: round_half_even_def)

lemma rhe_cases: "round_half_even y = \<lfloor>y\<rfloor> \<or> (round_half_even y = \<lfloor>y\<rfloor> + 1 \<and> of_int \<lfloor>y\<rfloor> < y)"
  unfolding round_half_even_def Let_def by (auto simp: not_less)

lemma rhe_upper: "y \<le> of_int k \<Longrightarrow> round_half_even y \<le> k"
proof -
  assume a: "y \<le> of_int k"
  show ?thesis
  proof (cases "y = of_int k")
    case True then show ?thesis by (simp add: rhe_of_int)
  next
    case False
    then have "y < of_int k" using a by simp
    then have "\<lfloor>y\<rfloor> < k" by (simp add: floor_less_iff)
    then show ?thesis using rhe_cases[of y] by auto
  qed
qed

lemma rhe_lower: "of_int k \<le> y \<Longrightarrow> k \<le> round_half_even y"
proof -
  assume "of_int k \<le> y"
  then have "k \<le> \<lfloor>y\<rfloor>" by (simp add: le_floor_iff)
  then show ?thesis using rhe_cases[of y] by auto
qed

lemma floor_log2:
  assumes "2 powr of_int e \<le> x" "x < 2 powr (of_int e + 1)"
  shows "\<lfloor>log 2 x\<rfloor> = e"
proof -
  have "0 < (2::real) powr of_int e" by simp
  then have pos: "0 < x" using assms(1) by linarith
  have "of_int e \<le> log 2 x" using assms(1) le_log_iff[of 2 x "of_int e"] pos by simp
  moreover have "log 2 x < of_int e + 1"
    using assms(2) log_less_iff[of 2 x "of_int e + 1"] pos by simp
  ultimately show ?thesis by (intro floor_unique) simp_all
qed

lemma log2_floor_bounds:
  assumes "0 < x"
  shows "2 powr of_int \<lfloor>log 2 x\<rfloor> \<le> x" "x < 2 powr (of_int \<lfloor>log 2 x\<rfloor> + 1)"
proof -
  have "of_int \<lfloor>log 2 x\<rfloor> \<le> log 2 x" by simp
  then show "2 powr of_int \<lfloor>log 2 x\<rfloor> \<le> x"
    using assms le_log_iff[of 2 x "of_int \<lfloor>log 2 x\<rfloor>"] by simp
  have "log 2 x < of_int \<lfloor>log 2 x\<rfloor> + 1" by linarith
  then show "x < 2 powr (of_int \<lfloor>log 2 x\<rfloor> + 1)"
    using assms log_less_iff[of 2 x "of_int \<lfloor>log 2 x\<rfloor> + 1"] by simp
qed

lemma nearest_double_eval:
  assumes "2 powr of_int e \<le> \<bar>x\<bar>" "\<bar>x\<bar> < 2 powr (of_int e + 1)" "- 1022 \<le> e"
  shows "nearest_double x =
     of_int (round_half_even (x / 2 powr (of_int e - 52))) * 2 powr (of_int e - 52)"
proof -
  have "0 < (2::real) powr of_int e" by simp
  then have "x \<noteq> 0" using assms(1) by auto
  moreover have "max \<lfloor>log 2 \<bar>x\<bar>\<rfloor> (- 1022) = e"
    using floor_log2[OF assms(1,2)] assms(3) by simp
  ultimately show ?thesis by (simp add: nearest_double_def Let_def)
qed


lemma nearest_double_nat:
  assumes "n < 2 ^ 53"
  shows "nearest_double (real n) = real n"
proof (cases "n = 0")
  case True
  then show ?thesis by (simp add: nearest_double_def)
next
  case False
  define x where "x = real n"
  define e where "e = \<lfloor>log 2 x\<rfloor>"
  have x1: "1 \<le> x" using False by (simp add: x_def)
  then have pos: "0 < x" by simp
  have lo: "2 powr of_int e \<le> x" and hi: "x < 2 powr (of_int e + 1)"
    unfolding e_def using log2_floor_bounds[OF pos] by simp_all
  have "0 \<le> log 2 x" using x1 by simp
  then have e0: "0 \<le> e" unfolding e_def by simp
  have "x < 2 ^ 53" using assms unfolding x_def
    by (metis of_nat_less_iff of_nat_numeral of_nat_power)
  then have "log 2 x < 53" using pos log_less_iff[of 2 x 53] by simp
  moreover have "of_int e \<le> log 2 x" unfolding e_def by simp
  ultimately have "of_int e < (53::real)" by linarith
  then have e52: "e \<le> 52" by linarith
  define m where "m = nat (52 - e)"
  have u: "(2::real) powr (of_int e - 52) = 1 / 2 ^ m"
  proof -
    have "of_int e - 52 = - real m" using e52 by (simp add: m_def)
    then have "(2::real) powr (of_int e - 52) = 2 powr (- real m)" by simp
    also have "\<dots> = 1 / 2 powr (real m)" by (simp add: powr_minus_divide)
    also have "\<dots> = 1 / 2 ^ m" by (simp add: powr_realpow)
    finally show ?thesis .
  qed
  have q: "x / (2 powr (of_int e - 52)) = of_int (int n * 2 ^ m)"
    unfolding u x_def by simp
  have "nearest_double x =
      of_int (round_half_even (x / 2 powr (of_int e - 52))) * 2 powr (of_int e - 52)"
    using lo hi e0 pos by (intro nearest_double_eval) simp_all
  also have "\<dots> = of_int (int n * 2 ^ m) * (1 / 2 ^ m)"
  proof -
    have "round_half_even (x / 2 powr (of_int e - 52)) = int n * 2 ^ m"
      by (simp only: q rhe_of_int)
    then show ?thesis by (simp only: u)
  qed
  also have "\<dots> = x" by (simp add: x_def)
  finally show ?thesis by (simp add: x_def)
qed

lemma nearest_double_bounds:
  assumes "2 powr (- 1022) \<le> x" "x < 2 powr of_int k"
  shows "0 \<le> nearest_double x" "nearest_double x \<le> 2 powr of_int k"
proof -
  define e where "e = \<lfloor>log 2 x\<rfloor>"
  have "0 < (2::real) powr (- 1022)" by simp
  then have pos: "0 < x" using assms(1) by linarith
  have lo: "2 powr of_int e \<le> x" and hi: "x < 2 powr (of_int e + 1)"
    unfolding e_def using log2_floor_bounds[OF pos] by simp_all
  have "- 1022 \<le> log 2 x" using assms(1) le_log_iff[of 2 x "- 1022"] pos by simp
  then have em: "- 1022 \<le> e" unfolding e_def by (simp add: le_floor_iff)
  have "(2::real) powr of_int e < 2 powr of_int k" using lo assms(2) by linarith
  then have "e < k" by simp
  then have ek: "of_int e + 1 \<le> (of_int k :: real)" by linarith
  define u where "u = (2::real) powr (of_int e - 52)"
  have upos: "0 < u" by (simp add: u_def)
  have ev: "nearest_double x = of_int (round_half_even (x / u)) * u"
    unfolding u_def using lo hi em pos by (intro nearest_double_eval) simp_all
  have "x / u < 2 powr (of_int e + 1) / u" using hi upos by (simp add: divide_strict_right_mono)
  also have "\<dots> = 2 powr ((of_int e + 1) - (of_int e - 52))"
    unfolding u_def by (simp only: powr_diff)
  also have "\<dots> = 2 powr 53" by simp
  finally have "x / u \<le> of_int (2 ^ 53)" by simp
  then have r: "round_half_even (x / u) \<le> 2 ^ 53" by (rule rhe_upper)
  have "(0::real) \<le> x / u" using pos upos by simp
  then have "of_int 0 \<le> x / u" by simp
  then have r0: "0 \<le> round_half_even (x / u)" by (rule rhe_lower)
  show "0 \<le> nearest_double x" unfolding ev using r0 upos by simp
  have "nearest_double x \<le> of_int (2 ^ 53) * u"
  proof -
    have "(of_int (round_half_even (x / u)) :: real) \<le> of_int (2 ^ 53)"
      using r by (simp only: of_int_le_iff)
    then show ?thesis unfolding ev using upos by (intro mult_right_mono) simp_all
  qed
  also have "of_int (2 ^ 53) * u = 2 powr 53 * 2 powr (of_int e - 52)"
    by (simp add: u_def)
  also have "\<dots> = 2 powr (of_int e + 1)"
  proof -
    have "(53::real) + (of_int e - 52) = of_int e + 1" by simp
    then show ?thesis by (simp only: powr_add[symmetric])
  qed
  also have "\<dots> \<le> 2 powr of_int k" using ek by simp
  finally show "nearest_double x \<le> 2 powr of_int k" .
qed


lemma pow2_int: "(2::real) powr of_int (int n) = 2 ^ n"
  by (simp add: powr_realpow)

lemma float_of_nat_small: "n < 2 ^ 53 \<Longrightarrow> float_of_nat n = Inr (real n)"
proof -
  assume a: "n < 2 ^ 53"
  then have "real n < 2 ^ 53" by (metis of_nat_less_iff of_nat_numeral of_nat_power)
  also have "(2::real) ^ 53 \<le> 2 ^ 1024" by (intro power_increasing) simp_all
  finally show ?thesis by (simp add: float_of_nat_def Let_def nearest_double_nat[OF a])
qed

lemma nearest_double_below:
  assumes "0 \<le> x" "x < 2 ^ n" "x = 0 \<or> 2 powr (- 1022) \<le> x" "n < 1024"
  shows "nearest_double x < 2 ^ 1024"
proof (cases "x = 0")
  case True
  then show ?thesis by (simp add: nearest_double_def)
next
  case False
  then have lo: "2 powr (- 1022) \<le> x" using assms(3) by simp
  have "nearest_double x \<le> 2 ^ n"
    using nearest_double_bounds(2)[OF lo, of "int n", unfolded pow2_int] assms(2) .
  also have "\<dots> < (2::real) ^ 1024" using assms(4) by (intro power_strict_increasing) simp_all
  finally show ?thesis .
qed

lemma float_of_nat_total: "n < 2 ^ 1023 \<Longrightarrow> \<exists>x. float_of_nat n = Inr x"
proof -
  assume a: "n < 2 ^ 1023"
  have "real n < 2 ^ 1023" using a by (metis of_nat_less_iff of_nat_numeral of_nat_power)
  moreover have "real n = 0 \<or> 2 powr (- 1022) \<le> real n"
  proof (cases "n = 0")
    case False
    have "(2::real) powr (- 1022) \<le> 2 powr 0" by (intro powr_mono) simp_all
    then show ?thesis using False by simp
  qed simp
  ultimately have "nearest_double (real n) < 2 ^ 1024"
    by (intro nearest_double_below[of _ 1023]) simp_all
  then show ?thesis by (simp add: float_of_nat_def Let_def)
qed

lemma win_rate_of_total:
  "n_wins < 2 ^ 1023 \<Longrightarrow> n_games < 2 ^ 1023 \<Longrightarrow> \<exists>r. win_rate_of n_wins n_games = Inr r"
  using float_of_nat_total[of n_wins] float_of_nat_total[of n_games]
  by (auto simp: win_rate_of_def Let_def)

lemma win_rate_of_small:
  assumes "n_wins * 100 < 2 ^ 53" "0 < n_games" "n_games < 2 ^ 53"
  shows "win_rate_of n_wins n_games =
     Inr (Finite (nearest_double (py_round1 (nearest_double
            (real (n_wins * 100) / real n_games)))))"
proof -
  have w: "n_wins < 2 ^ 53" using assms(1) by simp
  have fw: "float_of_nat n_wins = Inr (real n_wins)" by (rule float_of_nat_small[OF w])
  have fg: "float_of_nat n_games = Inr (real n_games)" by (rule float_of_nat_small[OF assms(3)])
  have p53: "real (n_wins * 100) < 2 ^ 53"
    using assms(1) by (metis of_nat_less_iff of_nat_numeral of_nat_power)
  have le: "(2::real) ^ 53 \<le> 2 ^ 1024" by (intro power_increasing) simp_all
  have "nearest_double (real n_wins * 100) = real (n_wins * 100)"
    using nearest_double_nat[OF assms(1)] by simp
  then have fm: "float_mul (real n_wins) 100 = Finite (real (n_wins * 100))"
    using p53 le by (simp add: float_mul_def Let_def)
  define y where "y = real (n_wins * 100) / real n_games"
  have y0: "0 \<le> y" by (simp add: y_def)
  have g1: "1 \<le> real n_games" using assms(2) by simp
  have yle: "y \<le> real (n_wins * 100)"
    unfolding y_def using g1 by (simp add: divide_le_eq mult_le_cancel_left1)
  then have y53: "y < 2 ^ 53" using p53 by linarith
  have ylo: "y = 0 \<or> 2 powr (- 1022) \<le> y"
  proof (cases "n_wins = 0")
    case True then show ?thesis by (simp add: y_def)
  next
    case False
    then have "1 \<le> real (n_wins * 100)" by simp
    moreover have "real n_games < 2 ^ 53"
      using assms(3) by (metis of_nat_less_iff of_nat_numeral of_nat_power)
    ultimately have "1 / 2 ^ 53 \<le> y"
      unfolding y_def using assms(2) by (intro frac_le) simp_all
    moreover have "(2::real) powr (- 1022) \<le> 2 powr (- 53)" by (intro powr_mono) simp_all
    moreover have "(2::real) powr (- 53) = 1 / 2 ^ 53"
      using powr_realpow[of 2 53] by (simp add: powr_minus_divide)
    ultimately show ?thesis by linarith
  qed
  have "nearest_double y < 2 ^ 1024"
    using y0 y53 ylo by (intro nearest_double_below[of _ 53]) simp_all
  then have fd: "float_div (Finite (real (n_wins * 100))) (real n_games) = Finite (nearest_double y)"
    by (simp add: y_def Let_def)
  show ?thesis
    by (simp only: win_rate_of_def fw fg sum.case Let_def fm fd float_round1.simps y_def)
qed

lemma nearest_double_scaled:
  assumes "2 ^ 52 \<le> \<bar>x\<bar> * 2 ^ m" "\<bar>x\<bar> * 2 ^ m < 2 ^ 53" "m \<le> 1074"
  shows "nearest_double x = of_int (round_half_even (x * 2 ^ m)) / 2 ^ m"
proof -
  define e where "e = 52 - int m"
  have u: "(2::real) powr (of_int e - 52) = 1 / 2 ^ m"
  proof -
    have "of_int e - 52 = - real m" by (simp add: e_def)
    then have "(2::real) powr (of_int e - 52) = 2 powr (- real m)" by simp
    also have "\<dots> = 1 / 2 powr (real m)" by (simp add: powr_minus_divide)
    also have "\<dots> = 1 / 2 ^ m" by (simp add: powr_realpow)
    finally show ?thesis .
  qed
  have p: "(2::real) powr of_int e = 2 ^ 52 / 2 ^ m"
  proof -
    have "of_int e = 52 - real m" by (simp add: e_def)
    then have "(2::real) powr of_int e = 2 powr (52 - real m)" by simp
    also have "\<dots> = 2 powr 52 / 2 powr (real m)" by (simp only: powr_diff)
    also have "\<dots> = 2 ^ 52 / 2 ^ m" by (simp add: powr_realpow)
    finally show ?thesis .
  qed
  have p1: "(2::real) powr (of_int e + 1) = 2 ^ 53 / 2 ^ m"
  proof -
    have "(2::real) powr (of_int e + 1) = 2 powr of_int e * 2 powr 1" by (simp only: powr_add)
    then show ?thesis by (simp add: p)
  qed
  have lo: "2 powr of_int e \<le> \<bar>x\<bar>"
    unfolding p using assms(1) by (simp add: divide_le_eq)
  have hi: "\<bar>x\<bar> < 2 powr (of_int e + 1)"
    unfolding p1 using assms(2) by (simp add: less_divide_eq)
  have em: "- 1022 \<le> e" using assms(3) by (simp add: e_def)
  show ?thesis
    unfolding nearest_double_eval[OF lo hi em] u by simp
qed

lemma double_100_3: "nearest_double (100 / 3) = 4691249611844267 / 140737488355328"
  using nearest_double_scaled[of "100 / 3" 47] by (simp add: round_half_even_def Let_def)

lemma double_333_10: "nearest_double (333 / 10) = 2343279181116211 / 70368744177664"
  using nearest_double_scaled[of "333 / 10" 47] by (simp add: round_half_even_def Let_def)

lemma double_3_20: "nearest_double (3 / 20) = 5404319552844595 / 36028797018963968"
  using nearest_double_scaled[of "3 / 20" 55] by (simp add: round_half_even_def Let_def)

lemma double_1_10: "nearest_double (1 / 10) = 3602879701896397 / 36028797018963968"
  using nearest_double_scaled[of "1 / 10" 56] by (simp add: round_half_even_def Let_def)

lemma double_50: "nearest_double 50 = 50"
  using nearest_double_nat[of 50] by simp

lemma win_rate_1_3: "win_rate_of 1 3 = Inr (Finite (2343279181116211 / 70368744177664))"
proof -
  have r: "py_round1 (4691249611844267 / 140737488355328) = 333 / 10"
    using py_round1_near[of "4691249611844267 / 140737488355328" 333] by simp
  show ?thesis
    using win_rate_of_small[of 1 3] by (simp add: double_100_3 r double_333_10)
qed

lemma win_rate_3_2000: "win_rate_of 3 2000 = Inr (Finite (3602879701896397 / 36028797018963968))"
proof -
  have r: "py_round1 (5404319552844595 / 36028797018963968) = 1 / 10"
    using py_round1_near[of "5404319552844595 / 36028797018963968" 1] by simp
  show ?thesis
    using win_rate_of_small[of 3 2000] by (simp add: double_3_20 r double_1_10)
qed

lemma win_rate_1_2: "win_rate_of 1 2 = Inr (Finite 50)"
proof -
  have r: "py_round1 50 = 50" using py_round1_int[of 50] by simp
  show ?thesis
    using win_rate_of_small[of 1 2] by (simp add: double_50 r)
qed

subsection \<open>The leaderboard\<close>

lemma ranked_snd:
  "map snd (map (\<lambda>(i, r). (i + 1, r)) (List.enumerate 0 xs)) = xs"
  by (simp add: enumerate_eq_zip split_def comp_def) 

lemma ranked_fst:
  "map fst (map (\<lambda>(i, r). (i + 1, r)) (List.enumerate 0 xs)) = [1..<Suc (length xs)]"
proof -
  have a: "map fst (map (\<lambda>(i, r). (i + 1, r)) ps) = map Suc (map fst ps)"
    for ps :: "(nat \<times> 'a) list"
    by (induction ps) auto
  have b: "map fst (List.enumerate 0 xs) = [0..<length xs]"
    by (simp add: enumerate_eq_zip)
  show ?thesis unfolding a b by (simp add: map_Suc_upt)
qed

lemma sorted_descending:
  "sorted_wrt (\<lambda>r s. rk_general_elo s \<le> rk_general_elo r)
     (sort_key (\<lambda>x. - rk_general_elo x) xs)"
proof -
  have "sorted (map (\<lambda>x. - rk_general_elo x) (sort_key (\<lambda>x. - rk_general_elo x) xs))"
    by (rule sorted_sort_key)
  then show ?thesis by (simp add: sorted_map)
qed

lemma stable_descending:
  "filter (\<lambda>r. rk_general_elo r = v) (sort_key (\<lambda>x. - rk_general_elo x) xs) =
   filter (\<lambda>r. rk_general_elo r = v) xs"
  using sort_key_stable[of "\<lambda>x. - rk_general_elo x" "- v" xs] by simp


lemma zero_games_absent:
  assumes "distinct (map fst al)" "(k, a) \<in> set al" "games_played a = 0"
  shows "k \<notin> fst ` set (filter (\<lambda>(k, a). 1 \<le> games_played a) al)"
proof
  assume "k \<in> fst ` set (filter (\<lambda>(k, a). 1 \<le> games_played a) al)"
  then obtain a' where "(k, a') \<in> set al" "1 \<le> games_played a'" by auto
  moreover have "a' = a" using assms(1,2) calculation(1) by (meson eq_key_imp_eq_value)
  ultimately show False using assms(3) by simp
qed


lemma ranking_of_fields:
  assumes "ranking_of k a = Inr r"
  shows "rk_agent_id r = k" "rk_general_elo r = general_elo a"
    "rk_games_played r = games_played a" "rk_wins r = wins a"
    "0 < games_played a \<Longrightarrow> Inr (rk_win_rate r) = win_rate_of (wins a) (games_played a)"
  using assms by (auto simp: ranking_of_def Let_def split: sum.splits if_splits)

lemma ranking_of_total:
  assumes "wins a < 2 ^ 1023" "games_played a < 2 ^ 1023"
  shows "\<exists>r. ranking_of k a = Inr r"
  using win_rate_of_total[OF assms] by (auto simp: ranking_of_def Let_def)

lemma rankings_loop_Inr:
  "rankings_loop acc al = Inr rs \<Longrightarrow>
   \<exists>new. rs = acc @ new \<and>
     list_all2 (\<lambda>(k, a) r. ranking_of k a = Inr r)
       (filter (\<lambda>(k, a). 1 \<le> games_played a) al) new"
proof (induction acc al arbitrary: rs rule: rankings_loop.induct)
  case (1 rankings)
  then show ?case by simp
next
  case (2 rankings agent_id data rest)
  show ?case
  proof (cases "games_played data = 0")
    case True
    then show ?thesis using 2(1)[OF True] 2(3) by simp
  next
    case False
    then obtain r where r: "ranking_of agent_id data = Inr r"
      using 2(3) by (auto split: sum.splits)
    then have "rankings_loop (rankings @ [r]) rest = Inr rs" using 2(3) False by simp
    from 2(2)[OF False r this] obtain new where
      "rs = (rankings @ [r]) @ new"
      "list_all2 (\<lambda>(k, a) r. ranking_of k a = Inr r)
         (filter (\<lambda>(k, a). 1 \<le> games_played a) rest) new" by blast
    then show ?thesis using False r by (intro exI[of _ "r # new"]) simp
  qed
qed

lemma rankings_loop_total:
  "\<forall>(k, a) \<in> set al. wins a < 2 ^ 1023 \<and> games_played a < 2 ^ 1023 \<Longrightarrow>
   \<exists>rs. rankings_loop acc al = Inr rs"
proof (induction acc al rule: rankings_loop.induct)
  case (1 rankings)
  then show ?case by simp
next
  case (2 rankings agent_id data rest)
  show ?case
  proof (cases "games_played data = 0")
    case True
    then show ?thesis using 2(1)[OF True] 2(3) by simp
  next
    case False
    obtain r where r: "ranking_of agent_id data = Inr r"
      using ranking_of_total[of data agent_id] 2(3) by auto
    show ?thesis using 2(2)[OF False r] 2(3) False r by simp
  qed
qed

lemma generate_leaderboard_Inr:
  assumes "generate_leaderboard_index state = Inr board"
  shows "\<exists>rankings.
     list_all2 (\<lambda>(k, a) r. ranking_of k a = Inr r)
       (filter (\<lambda>(k, a). 1 \<le> games_played a) (agents state)) rankings
     \<and> lb_rankings board =
         map (\<lambda>(i, r). (i + 1, r))
           (List.enumerate 0 (sort_key (\<lambda>x. - rk_general_elo x) rankings))
     \<and> lb_total_agents board = length rankings"
proof -
  obtain rs where rs: "rankings_loop [] (agents state) = Inr rs"
    using assms by (auto simp: generate_leaderboard_index_def split: sum.splits)
  have b: "board = \<lparr>lb_total_agents = length (sort_key (\<lambda>x. - rk_general_elo x) rs),
       lb_rankings = map (\<lambda>(i, r). (i + 1, r))
           (List.enumerate 0 (sort_key (\<lambda>x. - rk_general_elo x) rs))\<rparr>"
    using assms unfolding generate_leaderboard_index_def rs Let_def by simp
  have "list_all2 (\<lambda>(k, a) r. ranking_of k a = Inr r)
       (filter (\<lambda>(k, a). 1 \<le> games_played a) (agents state)) rs"
    using rankings_loop_Inr[OF rs] by simp
  then show ?thesis
    by (intro exI[of _ rs]) (simp add: b)
qed

text \<open>
  C8. For a state whose counters can be converted to \<^verbatim>\<open>float\<close> (any below \<open>2\<^sup>1\<^sup>0\<^sup>2\<^sup>3\<close>) the
  leaderboard is produced, and whenever it is produced: it holds one entry for each agent of
  the state with at least one game played, and no other, so that an agent with no game
  played does not appear; an entry carries the counters and the general rating of its agent
  and the win rate \<^verbatim>\<open>round(wins * 100.0 / games_played, 1)\<close> as the doubles compute it, which
  for counters below \<open>2\<^sup>5\<^sup>3\<close> is the double nearest to the one-decimal rounding (ties to
  even) of the double nearest to \<open>100 * wins / games_played\<close>; the entries are in descending
  order of the general rating, entries of equal rating in the order of the state; and the
  rank of an entry is its position, counted from 1.
\<close>

theorem leaderboard_projection:
  "((\<forall>(k, a) \<in> set (agents state). wins a < 2 ^ 1023 \<and> games_played a < 2 ^ 1023)
      \<longrightarrow> (\<exists>board. generate_leaderboard_index state = Inr board))
   \<and> (\<forall>board. generate_leaderboard_index state = Inr board \<longrightarrow>
        (let played = filter (\<lambda>(k, a). 1 \<le> games_played a) (agents state);
             entries = map snd (lb_rankings board)
         in \<exists>rankings.
              list_all2 (\<lambda>(k, a) r. ranking_of k a = Inr r) played rankings
            \<and> mset entries = mset rankings
            \<and> map rk_agent_id rankings = map fst played
            \<and> lb_total_agents board = length entries
            \<and> (\<forall>(k, a) \<in> set (agents state).
                  distinct (map fst (agents state)) \<and> games_played a = 0
                  \<longrightarrow> k \<notin> rk_agent_id ` set entries)
            \<and> list_all2
                 (\<lambda>(k, a) r. rk_games_played r = games_played a \<and> rk_wins r = wins a
                    \<and> rk_general_elo r = general_elo a
                    \<and> Inr (rk_win_rate r) = win_rate_of (wins a) (games_played a))
                 played rankings
            \<and> (\<forall>(k, a) \<in> set played.
                  wins a * 100 < 2 ^ 53 \<and> games_played a < 2 ^ 53 \<longrightarrow>
                  win_rate_of (wins a) (games_played a) =
                    Inr (Finite (nearest_double (py_round1 (nearest_double
                           (real (wins a * 100) / real (games_played a)))))))
            \<and> sorted_wrt (\<lambda>r s. rk_general_elo s \<le> rk_general_elo r) entries
            \<and> map fst (lb_rankings board) = [1..<Suc (length entries)]
            \<and> (\<forall>v. filter (\<lambda>r. rk_general_elo r = v) entries =
                    filter (\<lambda>r. rk_general_elo r = v) rankings)))"
proof (intro conjI impI allI)
  assume "\<forall>(k, a) \<in> set (agents state). wins a < 2 ^ 1023 \<and> games_played a < 2 ^ 1023"
  then obtain rs where "rankings_loop [] (agents state) = Inr rs"
    using rankings_loop_total[of "agents state" "[]"] by blast
  then show "\<exists>board. generate_leaderboard_index state = Inr board"
    by (simp add: generate_leaderboard_index_def Let_def)
next
  fix board
  assume gen: "generate_leaderboard_index state = Inr board"
  define played where "played = filter (\<lambda>(k, a). 1 \<le> games_played a) (agents state)"
  define entries where "entries = map snd (lb_rankings board)"
  obtain rankings where
    rel: "list_all2 (\<lambda>(k, a) r. ranking_of k a = Inr r) played rankings"
    and lb: "lb_rankings board =
         map (\<lambda>(i, r). (i + 1, r))
           (List.enumerate 0 (sort_key (\<lambda>x. - rk_general_elo x) rankings))"
    and tot: "lb_total_agents board = length rankings"
    using generate_leaderboard_Inr[OF gen] unfolding played_def by blast
  have e: "entries = sort_key (\<lambda>x. - rk_general_elo x) rankings"
    unfolding entries_def lb by (rule ranked_snd)
  have c1: "mset entries = mset rankings" by (simp add: e)
  have c2: "map rk_agent_id rankings = map fst played"
    using rel by (induction rule: list_all2_induct) (auto simp: ranking_of_fields(1))
  have c3: "lb_total_agents board = length entries" by (simp add: tot e)
  have ids: "rk_agent_id ` set entries = fst ` set played"
  proof -
    have "rk_agent_id ` set entries = set (map rk_agent_id rankings)" by (simp add: e)
    then show ?thesis by (simp only: c2 set_map)
  qed
  have c4: "\<forall>(k, a) \<in> set (agents state).
        distinct (map fst (agents state)) \<and> games_played a = 0
        \<longrightarrow> k \<notin> rk_agent_id ` set entries"
    unfolding ids played_def using zero_games_absent[of "agents state"] by blast
  have pos: "\<forall>(k, a) \<in> set played. 0 < games_played a" by (auto simp: played_def)
  have c5: "list_all2
       (\<lambda>(k, a) r. rk_games_played r = games_played a \<and> rk_wins r = wins a
          \<and> rk_general_elo r = general_elo a
          \<and> Inr (rk_win_rate r) = win_rate_of (wins a) (games_played a))
       played rankings"
    using rel pos
    by (induction rule: list_all2_induct) (auto simp: ranking_of_fields)
  have c6: "\<forall>(k, a) \<in> set played.
        wins a * 100 < 2 ^ 53 \<and> games_played a < 2 ^ 53 \<longrightarrow>
        win_rate_of (wins a) (games_played a) =
          Inr (Finite (nearest_double (py_round1 (nearest_double
                 (real (wins a * 100) / real (games_played a))))))"
    using pos win_rate_of_small by blast
  have c7: "sorted_wrt (\<lambda>r s. rk_general_elo s \<le> rk_general_elo r) entries"
    unfolding e by (rule sorted_descending)
  have c8: "map fst (lb_rankings board) = [1..<Suc (length entries)]"
    unfolding lb ranked_fst e by simp
  have c9: "\<forall>v. filter (\<lambda>r. rk_general_elo r = v) entries =
            filter (\<lambda>r. rk_general_elo r = v) rankings"
    unfolding e by (simp add: stable_descending)
  show "let played = filter (\<lambda>(k, a). 1 \<le> games_played a) (agents state);
             entries = map snd (lb_rankings board)
         in \<exists>rankings.
              list_all2 (\<lambda>(k, a) r. ranking_of k a = Inr r) played rankings
            \<and> mset entries = mset rankings
            \<and> map rk_agent_id rankings = map fst played
            \<and> lb_total_agents board = length entries
            \<and> (\<forall>(k, a) \<in> set (agents state).
                  distinct (map fst (agents state)) \<and> games_played a = 0
                  \<longrightarrow> k \<notin> rk_agent_id ` set entries)
            \<and> list_all2
                 (\<lambda>(k, a) r. rk_games_played r = games_played a \<and> rk_wins r = wins a
                    \<and> rk_general_elo r = general_elo a
                    \<and> Inr (rk_win_rate r) = win_rate_of (wins a) (games_played a))
                 played rankings
            \<and> (\<forall>(k, a) \<in> set played.
                  wins a * 100 < 2 ^ 53 \<and> games_played a < 2 ^ 53 \<longrightarrow>
                  win_rate_of (wins a) (games_played a) =
                    Inr (Finite (nearest_double (py_round1 (nearest_double
                           (real (wins a * 100) / real (games_played a)))))))
            \<and> sorted_wrt (\<lambda>r s. rk_general_elo s \<le> rk_general_elo r) entries
            \<and> map fst (lb_rankings board) = [1..<Suc (length entries)]
            \<and> (\<forall>v. filter (\<lambda>r. rk_general_elo r = v) entries =
                    filter (\<lambda>r. rk_general_elo r = v) rankings)"
    unfolding Let_def played_def[symmetric] entries_def[symmetric]
    using rel c1 c2 c3 c4 c5 c6 c7 c8 c9 by blast
qed

theorem leaderboard_projection_witness:
  "distinct (map fst (agents board_state))
   \<and> (\<exists>board. generate_leaderboard_index board_state = Inr board
        \<and> map (\<lambda>(i, r). (i, rk_agent_id r, rk_general_elo r, rk_win_rate r)) (lb_rankings board)
            = [(1, ''d'', 1030, Finite 50),
               (2, ''b'', 1016, Finite (2343279181116211 / 70368744177664)),
               (3, ''c'', 1016, Finite (3602879701896397 / 36028797018963968))]
        \<and> lb_total_agents board = 3
        \<and> ''a'' \<notin> rk_agent_id ` set (map snd (lb_rankings board)))"
proof -
  obtain board where v: "generate_leaderboard_index board_state = Inr board"
    using leaderboard_projection[of board_state]
    by (auto simp: board_state_def default_agent_def)
  have w: "win_rate_of (Suc 0) 3 = Inr (Finite (2343279181116211 / 70368744177664))"
    "win_rate_of (Suc 0) 2 = Inr (Finite 50)"
    using win_rate_1_3 win_rate_1_2 by simp_all
  have l: "lb_rankings board =
     map (\<lambda>(i, r). (i + 1, r)) (List.enumerate 0 (sort_key (\<lambda>x. - rk_general_elo x)
       [\<lparr>rk_agent_id = ''b'', rk_general_elo = 1016, rk_werewolf_elo = 1000,
          rk_villager_elo = 1000, rk_games_played = 3, rk_wins = 1, rk_losses = 2,
          rk_win_rate = Finite (2343279181116211 / 70368744177664),
          rk_games_as_werewolf = 0, rk_games_as_villager = 3,
          rk_wins_as_werewolf = 0, rk_wins_as_villager = 1\<rparr>,
        \<lparr>rk_agent_id = ''c'', rk_general_elo = 1016, rk_werewolf_elo = 1000,
          rk_villager_elo = 1000, rk_games_played = 2000, rk_wins = 3, rk_losses = 1997,
          rk_win_rate = Finite (3602879701896397 / 36028797018963968),
          rk_games_as_werewolf = 0, rk_games_as_villager = 2000,
          rk_wins_as_werewolf = 0, rk_wins_as_villager = 3\<rparr>,
        \<lparr>rk_agent_id = ''d'', rk_general_elo = 1030, rk_werewolf_elo = 1000,
          rk_villager_elo = 1000, rk_games_played = 2, rk_wins = 1, rk_losses = 1,
          rk_win_rate = Finite 50,
          rk_games_as_werewolf = 2, rk_games_as_villager = 0,
          rk_wins_as_werewolf = 1, rk_wins_as_villager = 0\<rparr>]))"
    using v
    by (auto simp: generate_leaderboard_index_def board_state_def default_agent_def
        ranking_of_def Let_def w win_rate_3_2000 INITIAL_ELO_def)
  have t: "lb_total_agents board = length (map snd (lb_rankings board))"
    using leaderboard_projection[of board_state] v unfolding Let_def by blast
  have d: "distinct (map fst (agents board_state))" by (simp add: board_state_def)
  show ?thesis
    using d v t by (auto simp: l enumerate_eq_zip upt_rec)
qed

end
